theory Spec2Isabelle
  imports Complex_Main "HOL-Library.Word" "HOL-Library.Monad_Syntax"
begin

unbundle bit_operations_syntax

section \<open>MIDI byte-stream router (midi.cpp)\<close>

subsection \<open>Constants and the status-to-length table\<close>

type_synonym u8 = "8 word"

definition MIDI_SYSEX_SIZE :: nat where
  "MIDI_SYSEX_SIZE = 8192"

definition MIDI_DEVS :: nat where
  "MIDI_DEVS = 4"

text \<open>Input-device identifiers of \<^verbatim>\<open>enum {MDEV_MPU,MDEV_SBUART,MDEV_GUS,MDEV_SB16,MDEV_NONE}\<close>.\<close>

definition MDEV_SBUART :: nat where
  "MDEV_SBUART = 1"

definition MDEV_NONE :: nat where
  "MDEV_NONE = 4"

text \<open>The table \<^verbatim>\<open>uint8_t MIDI_evt_len[256]\<close>, row by row as in the source.\<close>

definition MIDI_evt_len_table :: "nat list" where
  "MIDI_evt_len_table =
   [0,0,0,0, 0,0,0,0, 0,0,0,0, 0,0,0,0,
    0,0,0,0, 0,0,0,0, 0,0,0,0, 0,0,0,0,
    0,0,0,0, 0,0,0,0, 0,0,0,0, 0,0,0,0,
    0,0,0,0, 0,0,0,0, 0,0,0,0, 0,0,0,0,
    0,0,0,0, 0,0,0,0, 0,0,0,0, 0,0,0,0,
    0,0,0,0, 0,0,0,0, 0,0,0,0, 0,0,0,0,
    0,0,0,0, 0,0,0,0, 0,0,0,0, 0,0,0,0,
    0,0,0,0, 0,0,0,0, 0,0,0,0, 0,0,0,0,

    3,3,3,3, 3,3,3,3, 3,3,3,3, 3,3,3,3,
    3,3,3,3, 3,3,3,3, 3,3,3,3, 3,3,3,3,
    3,3,3,3, 3,3,3,3, 3,3,3,3, 3,3,3,3,
    3,3,3,3, 3,3,3,3, 3,3,3,3, 3,3,3,3,

    2,2,2,2, 2,2,2,2, 2,2,2,2, 2,2,2,2,
    2,2,2,2, 2,2,2,2, 2,2,2,2, 2,2,2,2,

    3,3,3,3, 3,3,3,3, 3,3,3,3, 3,3,3,3,

    0,2,3,2, 0,0,1,0, 1,0,1,1, 1,0,1,0]"

definition MIDI_evt_len :: "u8 \<Rightarrow> nat" where
  "MIDI_evt_len b = MIDI_evt_len_table ! unat b"

subsection \<open>Backends and the calls the router makes on its collaborators\<close>

text \<open>
  A backend descriptor as the router sees it: \<^verbatim>\<open>GetName()\<close> and the outcome of
  \<^verbatim>\<open>Open(conf)\<close>. The sending side of a backend is observed through the trace below.
\<close>

record MidiHandler =
  GetName :: string
  Open :: "string \<Rightarrow> bool"

text \<open>
  Every call that leaves the router is recorded, in program order:
  \<^verbatim>\<open>midi.handler->PlayMsg(p)\<close> with the eight bytes \<open>p\<close> points to,
  \<^verbatim>\<open>midi.handler->PlaySysex(buf, len)\<close> with the \<open>len\<close> bytes handed over,
  \<^verbatim>\<open>Delay(ms)\<close>, \<^verbatim>\<open>CAPTURE_AddMidi(sysex, len, data)\<close>, the log lines, and
  \<^verbatim>\<open>handler->Open(conf)\<close> with the backend's name.
\<close>

datatype event =
    EvPlayMsg "u8 list"
  | EvPlaySysex "u8 list"
  | EvDelay int
  | EvCapture bool "u8 list"
  | EvLog string
  | EvOpen string string

fun is_backend :: "event \<Rightarrow> bool" where
  "is_backend (EvPlayMsg _) = True"
| "is_backend (EvPlaySysex _) = True"
| "is_backend _ = False"

text \<open>
  What \<^verbatim>\<open>MidiHandler_coremidi::PlayMsg\<close> puts on the wire for a buffer:
  \<^verbatim>\<open>len = MIDI_evt_len[*msg]\<close> bytes, starting at \<^verbatim>\<open>msg\<close>.
\<close>

definition coremidi_PlayMsg :: "u8 list \<Rightarrow> u8 list" where
  "coremidi_PlayMsg msg = (case msg of [] \<Rightarrow> [] | b # _ \<Rightarrow> take (MIDI_evt_len b) msg)"

subsection \<open>The session state \<^verbatim>\<open>DB_Midi midi\<close>\<close>

text \<open>
  Fixed-size C arrays are total functions on indices. An access by slot, and a write at an
  index that the source does not guard itself, is bounds-checked by the operations below:
  they return \<open>None\<close> where the C program would leave the array or dereference a null
  handler.
\<close>

record cmd_t =
  cmd_len :: nat
  cmd_pos :: nat
  cmd_buf :: "nat \<Rightarrow> u8"

record sysex_t =
  sysex_buf :: "nat \<Rightarrow> u8"
  sysex_used :: nat
  sysex_delay :: int
  sysex_start :: int

record DB_Midi =
  rt_buf :: "nat \<Rightarrow> u8"
  status :: "nat \<Rightarrow> nat"
  cmd_r :: "64 word"
  cmd :: "nat \<Rightarrow> cmd_t"
  sysex :: "nat \<Rightarrow> sysex_t"
  available :: bool
  in_available :: bool
  handler :: "MidiHandler option"
  in_handler :: "MidiHandler option"
  realtime :: bool
  inputdev :: nat
  autoinput :: bool
  thruchan :: bool
  clockout :: bool

text \<open>
  The router's surroundings: the millisecond tick counter read by \<^verbatim>\<open>GetTicks()\<close>, the
  flag \<^verbatim>\<open>CaptureState & CAPTURE_MIDI\<close>, and the trace of outgoing calls.
\<close>

record world = DB_Midi +
  ticks :: int
  capture_midi :: bool
  trace :: "event list"

definition backend_calls :: "world \<Rightarrow> event list" where
  "backend_calls m = filter is_backend (trace m)"

definition emit :: "event \<Rightarrow> world \<Rightarrow> world" where
  "emit e m = m\<lparr>trace := trace m @ [e]\<rparr>"

definition upd_cmd :: "nat \<Rightarrow> (cmd_t \<Rightarrow> cmd_t) \<Rightarrow> world \<Rightarrow> world" where
  "upd_cmd slot f m = m\<lparr>cmd := (cmd m)(slot := f (cmd m slot))\<rparr>"

definition upd_sysex :: "nat \<Rightarrow> (sysex_t \<Rightarrow> sysex_t) \<Rightarrow> world \<Rightarrow> world" where
  "upd_sysex slot f m = m\<lparr>sysex := (sysex m)(slot := f (sysex m slot))\<rparr>"

text \<open>
  Modelled from the spec: \<^verbatim>\<open>GetTicks\<close> is declared in \<^verbatim>\<open>timer.h\<close>, which is not among the
  sources at hand. It reads the millisecond counter of the host ("now").
\<close>

definition GetTicks :: "world \<Rightarrow> int" where
  "GetTicks m = ticks m"

text \<open>
  Modelled from the spec: \<^verbatim>\<open>GetTicksSince\<close> (\<^verbatim>\<open>timer.h\<close>, not among the sources at hand)
  is the time passed since an earlier reading of the counter.
\<close>

definition GetTicksSince :: "int \<Rightarrow> world \<Rightarrow> int" where
  "GetTicksSince t m = GetTicks m - t"

text \<open>
  Modelled from the spec: \<^verbatim>\<open>Delay\<close> (\<^verbatim>\<open>timer.h\<close>, not among the sources at hand) sleeps
  the calling context for the given number of milliseconds, after which the counter has
  advanced by that much.
\<close>

definition Delay :: "int \<Rightarrow> world \<Rightarrow> world" where
  "Delay d m = emit (EvDelay d) (m\<lparr>ticks := ticks m + d\<rparr>)"

text \<open>
  A call through \<^verbatim>\<open>midi.handler\<close>; without a selected backend the pointer is null and the
  call has no meaning.
\<close>

definition PlayMsg :: "(nat \<Rightarrow> u8) \<Rightarrow> world \<Rightarrow> world option" where
  "PlayMsg msg m =
     (case handler m of
        None \<Rightarrow> None
      | Some h \<Rightarrow> Some (emit (EvPlayMsg (map msg [0..<8])) m))"

definition PlaySysex :: "(nat \<Rightarrow> u8) \<Rightarrow> nat \<Rightarrow> world \<Rightarrow> world option" where
  "PlaySysex buf n m =
     (case handler m of
        None \<Rightarrow> None
      | Some h \<Rightarrow> Some (emit (EvPlaySysex (map buf [0..<n])) m))"

subsection \<open>Sysex pacing\<close>

text \<open>
  \<^verbatim>\<open>delay_in_ms\<close>: the quotient is computed in double precision and truncated by
  \<^verbatim>\<open>static_cast<int>\<close>. Both constants are dyadic and the exact quotient \<open>2n/5\<close> is
  either an integer or at least \<open>1/5\<close> away from one, so rounding to double never moves
  it across an integer for any buffer length; the exact quotient is used here.
\<close>

definition delay_in_ms :: "nat \<Rightarrow> int" where
  "delay_in_ms sysex_bytes_num =
     (let midi_baud_rate = (3.125 :: real);
          delay = (real sysex_bytes_num * 1.25) / midi_baud_rate
      in \<lfloor>delay\<rfloor> + 2)"

subsection \<open>\<^verbatim>\<open>MIDI_RawOutByte(data, slot)\<close>\<close>

text \<open>Lines 438-442: wait out what is left of the slot's pacing delay.\<close>

definition pacing_wait :: "nat \<Rightarrow> world \<Rightarrow> world" where
  "pacing_wait slot m =
     (if sysex_start (sysex m slot) \<noteq> 0 then
        (let passed_ticks = GetTicksSince (sysex_start (sysex m slot)) m in
         if passed_ticks < sysex_delay (sysex m slot)
         then Delay (sysex_delay (sysex m slot) - passed_ticks) m
         else m)
      else m)"

text \<open>Lines 445-449: a realtime byte goes out through \<^verbatim>\<open>rt_buf\<close>.\<close>

definition realtime_out :: "u8 \<Rightarrow> world \<Rightarrow> world option" where
  "realtime_out data m =
     (let m1 = m\<lparr>rt_buf := (rt_buf m)(0 := data)\<rparr> in PlayMsg (rt_buf m1) m1)"

text \<open>Lines 452-455: a data byte during a sysex transfer.\<close>

definition sysex_append :: "u8 \<Rightarrow> nat \<Rightarrow> world \<Rightarrow> world" where
  "sysex_append data slot m =
     (if sysex_used (sysex m slot) < MIDI_SYSEX_SIZE - 1
      then upd_sysex slot
             (\<lambda>s. s\<lparr>sysex_buf := (sysex_buf s)(sysex_used s := data),
                     sysex_used := sysex_used s + 1\<rparr>) m
      else m)"

text \<open>Lines 464-475: the delay stored after a dispatched sysex when pacing is armed.\<close>

definition pacing_delay :: "sysex_t \<Rightarrow> int" where
  "pacing_delay s =
     (if sysex_buf s 5 = 0x7F then 290
      else if sysex_buf s 5 = 0x10 \<and> sysex_buf s 6 = 0x00 \<and> sysex_buf s 7 = 0x04 then 145
      else if sysex_buf s 5 = 0x10 \<and> sysex_buf s 6 = 0x00 \<and> sysex_buf s 7 = 0x01 then 30
      else delay_in_ms (sysex_used s))"

definition rearm_pacing :: "nat \<Rightarrow> world \<Rightarrow> world" where
  "rearm_pacing slot m =
     (if sysex_start (sysex m slot) \<noteq> 0
      then upd_sysex slot
             (\<lambda>s. s\<lparr>sysex_delay := pacing_delay s, sysex_start := GetTicks m\<rparr>) m
      else m)"

text \<open>The test of line 459 for an MT-32 message too short to carry a checksum.\<close>

definition short_mt32 :: "sysex_t \<Rightarrow> bool" where
  "short_mt32 s \<longleftrightarrow>
     sysex_start s \<noteq> 0 \<and> 4 \<le> sysex_used s \<and> sysex_used s \<le> 9
     \<and> sysex_buf s 1 = 0x41 \<and> sysex_buf s 3 = 0x16"

text \<open>
  Lines 457-481: a status byte ends the sysex transfer. The terminator is written at
  index \<open>used\<close>, which must lie inside the buffer.
\<close>

definition sysex_finish :: "nat \<Rightarrow> world \<Rightarrow> world option" where
  "sysex_finish slot m =
     (if MIDI_SYSEX_SIZE \<le> sysex_used (sysex m slot) then None
      else do {
        let m1 = upd_sysex slot
                   (\<lambda>s. s\<lparr>sysex_buf := (sysex_buf s)(sysex_used s := 0xf7),
                           sysex_used := sysex_used s + 1\<rparr>) m;
        m2 \<leftarrow> (if short_mt32 (sysex m1 slot)
               then Some (emit (EvLog ''MIDI:Skipping invalid MT-32 SysEx midi message (too short to contain a checksum)'') m1)
               else do {
                 m' \<leftarrow> PlaySysex (sysex_buf (sysex m1 slot)) (sysex_used (sysex m1 slot)) m1;
                 Some (rearm_pacing slot m')
               });
        let m3 = emit (EvLog ''Sysex message size %d'') m2;
        Some (if capture_midi m3
              then emit (EvCapture True
                           (map (sysex_buf (sysex m3 slot)) [1..<sysex_used (sysex m3 slot)])) m3
              else m3)
      })"

text \<open>Lines 484-492: a status byte is latched.\<close>

definition latch_status :: "u8 \<Rightarrow> nat \<Rightarrow> world \<Rightarrow> world" where
  "latch_status data slot m =
     (if data AND 0x80 \<noteq> 0 then
        (let m1 = upd_cmd slot (\<lambda>c. c\<lparr>cmd_pos := 0, cmd_len := MIDI_evt_len data\<rparr>)
                    (m\<lparr>status := (status m)(slot := unat data)\<rparr>)
         in if status m1 slot = 0xf0
            then upd_sysex slot (\<lambda>s. s\<lparr>sysex_buf := (sysex_buf s)(0 := 0xf0), sysex_used := 1\<rparr>) m1
            else m1)
      else m)"

text \<open>
  Lines 493-502: the byte joins the pending fixed-length command, which is sent once
  complete. The write goes to \<^verbatim>\<open>cmd.buf[pos]\<close>, an array of eight bytes.
\<close>

definition cmd_collect :: "u8 \<Rightarrow> nat \<Rightarrow> world \<Rightarrow> world option" where
  "cmd_collect data slot m =
     (if cmd_len (cmd m slot) \<noteq> 0 then
        (if 8 \<le> cmd_pos (cmd m slot) then None
         else do {
           let m1 = upd_cmd slot
                      (\<lambda>c. c\<lparr>cmd_buf := (cmd_buf c)(cmd_pos c := data),
                              cmd_pos := cmd_pos c + 1\<rparr>) m;
           if cmd_len (cmd m1 slot) \<le> cmd_pos (cmd m1 slot) then do {
             let m2 = (if capture_midi m1
                       then emit (EvCapture False
                                    (map (cmd_buf (cmd m1 slot)) [0..<cmd_len (cmd m1 slot)])) m1
                       else m1);
             m3 \<leftarrow> PlayMsg (cmd_buf (cmd m2 slot)) m2;
             Some (upd_cmd slot (\<lambda>c. c\<lparr>cmd_pos := 1\<rparr>) m3)
           } else Some m1
         })
      else Some m)"

definition MIDI_RawOutByte :: "u8 \<Rightarrow> nat \<Rightarrow> world \<Rightarrow> world option" where
  "MIDI_RawOutByte data slot m0 =
     (if MIDI_DEVS \<le> slot then None
      else
        (let m = pacing_wait slot m0 in
         if 0xf8 \<le> data then realtime_out data m
         else if status m slot = 0xf0 \<and> data AND 0x80 = 0 then Some (sysex_append data slot m)
         else do {
           m1 \<leftarrow> (if status m slot = 0xf0 then sysex_finish slot m else Some m);
           cmd_collect data slot (latch_status data slot m1)
         }))"

text \<open>A byte stream is a list of calls, each with its byte and its slot.\<close>

fun feed :: "(u8 \<times> nat) list \<Rightarrow> world \<Rightarrow> world option" where
  "feed [] m = Some m"
| "feed ((data, slot) # rest) m =
     (case MIDI_RawOutByte data slot m of None \<Rightarrow> None | Some m' \<Rightarrow> feed rest m')"

definition on_slot :: "nat \<Rightarrow> u8 list \<Rightarrow> (u8 \<times> nat) list" where
  "on_slot slot bytes = map (\<lambda>b. (b, slot)) bytes"

text \<open>\<^verbatim>\<open>MIDI_ClearBuffer(slot)\<close>.\<close>

definition MIDI_ClearBuffer :: "nat \<Rightarrow> world \<Rightarrow> world option" where
  "MIDI_ClearBuffer slot m =
     (if MIDI_DEVS \<le> slot then None
      else
        (let m1 = upd_sysex slot (\<lambda>s. s\<lparr>sysex_used := 0\<rparr>) m;
             m2 = m1\<lparr>status := (status m1)(slot := 0)\<rparr>
         in Some (upd_cmd slot (\<lambda>c. c\<lparr>cmd_pos := 0, cmd_len := 0\<rparr>) m2)))"

subsection \<open>\<^verbatim>\<open>MIDI_RawOutRTByte\<close> and \<^verbatim>\<open>MIDI_RawOutThruRTByte\<close>\<close>

text \<open>
  \<^verbatim>\<open>Bitu\<close> is the host's pointer-sized unsigned integer (\<^verbatim>\<open>types.h\<close>, not among the
  sources at hand); it is taken as 64 bits wide. \<^verbatim>\<open>data<<24\<close> is computed in \<^verbatim>\<open>int\<close>
  and converted to \<^verbatim>\<open>Bitu\<close>, which extends the sign. \<^verbatim>\<open>(Bit8u*)&midi.cmd_r\<close> reads the
  object representation of \<^verbatim>\<open>cmd_r\<close>; on the little-endian hosts this router is built for
  byte \<open>i\<close> of it holds bits \<open>8i\<close> to \<open>8i+7\<close>.
\<close>

definition Bitu_bytes :: "64 word \<Rightarrow> nat \<Rightarrow> u8" where
  "Bitu_bytes w i = ucast (drop_bit (8 * i) w)"

definition MIDI_RawOutRTByte :: "u8 \<Rightarrow> world \<Rightarrow> world option" where
  "MIDI_RawOutRTByte data m =
     (if \<not> realtime m then Some m
      else if \<not> clockout m \<and> data = 0xf8 then Some m
      else
        (let m1 = m\<lparr>cmd_r := scast (push_bit 24 (ucast data :: 32 word))\<rparr>
         in PlayMsg (Bitu_bytes (cmd_r m1)) m1))"

definition MIDI_RawOutThruRTByte :: "u8 \<Rightarrow> world \<Rightarrow> world option" where
  "MIDI_RawOutThruRTByte data m =
     (if thruchan m then MIDI_RawOutRTByte data m else Some m)"

subsection \<open>Backend registration and selection\<close>

text \<open>
  \<^verbatim>\<open>MidiHandler::MidiHandler() : next(handler_list) { handler_list = this; }\<close>:
  every constructed backend is put in front of the list.
\<close>

definition MidiHandler_ctor :: "MidiHandler \<Rightarrow> MidiHandler list \<Rightarrow> MidiHandler list" where
  "MidiHandler_ctor this handler_list = this # handler_list"

definition register_all :: "MidiHandler list \<Rightarrow> MidiHandler list" where
  "register_all hs = foldl (\<lambda>handler_list h. MidiHandler_ctor h handler_list) [] hs"

text \<open>
  Modelled from the spec: the base class of \<^verbatim>\<open>midi_handler.h\<close> is not among the sources
  at hand. \<^verbatim>\<open>MidiHandler Midi_none\<close> is an instance of it: the built-in no-op backend,
  named \<open>none\<close>, whose \<^verbatim>\<open>Open\<close> always succeeds.
\<close>

definition Midi_none :: MidiHandler where
  "Midi_none = \<lparr>GetName = ''none'', Open = (\<lambda>conf. True)\<rparr>"

text \<open>
  The constructor \<^verbatim>\<open>MIDI::MIDI\<close> from line 587 on, with the lower-cased device name
  \<open>dev\<close> and the trimmed configuration string \<open>conf\<close>. The search for a named device
  either returns (\<open>Inl\<close>) or jumps to \<^verbatim>\<open>getdefault\<close> (\<open>Inr\<close>).
\<close>

fun find_device :: "string \<Rightarrow> string \<Rightarrow> MidiHandler list \<Rightarrow> world \<Rightarrow> world + world" where
  "find_device dev conf [] m =
     Inr (emit (EvLog ''MIDI: Cannot find device: %s, using default handler.'') m)"
| "find_device dev conf (h # next) m =
     (if dev = GetName h then
        (let m1 = emit (EvOpen (GetName h) conf) m in
         if \<not> Open h conf
         then Inr (emit (EvLog ''MIDI: Cannot open device: %s with config: %s'') m1)
         else Inl (emit (EvLog ''MIDI: Opened device: %s'')
                     (m1\<lparr>handler := Some h, available := True, realtime := True,
                          inputdev := MDEV_SBUART, autoinput := True, thruchan := False,
                          clockout := False\<rparr>)))
      else find_device dev conf next m)"

text \<open>
  The loop at \<^verbatim>\<open>getdefault\<close>. Leaving it without a backend runs into the assertion of
  line 642, which cannot hold there: the result is \<open>None\<close>.
\<close>

fun getdefault :: "string \<Rightarrow> MidiHandler list \<Rightarrow> world \<Rightarrow> world option" where
  "getdefault conf [] m = None"
| "getdefault conf (h # next) m =
     (let m1 = m\<lparr>realtime := True, inputdev := MDEV_SBUART, autoinput := False,
                   thruchan := False, clockout := False\<rparr>;
          name = GetName h
      in if name = ''fluidsynth'' then getdefault conf next m1
         else if name = ''mt32'' then getdefault conf next m1
         else
           (let m2 = emit (EvOpen name conf) m1 in
            if Open h conf
            then Some (emit (EvLog ''MIDI: Opened device: %s'')
                         (m2\<lparr>available := True, handler := Some h\<rparr>))
            else getdefault conf next m2))"

definition MIDI_select :: "string \<Rightarrow> string \<Rightarrow> MidiHandler list \<Rightarrow> world \<Rightarrow> world option" where
  "MIDI_select dev conf handler_list m =
     (if dev = ''auto'' \<or> dev = ''default'' then getdefault conf handler_list m
      else
        (case find_device dev conf handler_list m of
           Inl m' \<Rightarrow> Some m'
         | Inr m' \<Rightarrow> getdefault conf handler_list m'))"

text \<open>The statically allocated \<^verbatim>\<open>DB_Midi midi\<close> before the constructor runs: all zero.\<close>

definition zero_world :: world where
  "zero_world =
     \<lparr>rt_buf = (\<lambda>i. 0), status = (\<lambda>slot. 0), cmd_r = 0,
      cmd = (\<lambda>slot. \<lparr>cmd_len = 0, cmd_pos = 0, cmd_buf = (\<lambda>i. 0)\<rparr>),
      sysex = (\<lambda>slot. \<lparr>sysex_buf = (\<lambda>i. 0), sysex_used = 0, sysex_delay = 0, sysex_start = 0\<rparr>),
      available = False, in_available = False, handler = None, in_handler = None,
      realtime = False, inputdev = 0, autoinput = False, thruchan = False, clockout = False,
      ticks = 0, capture_midi = False, trace = []\<rparr>"

text \<open>
  The session as \<^verbatim>\<open>MIDI::MIDI\<close> leaves it when it fell back to the no-op backend, with
  the trace of calls started afresh.
\<close>

definition none_world :: world where
  "none_world =
     zero_world\<lparr>handler := Some Midi_none, available := True, realtime := True,
                inputdev := MDEV_SBUART\<rparr>"

text \<open>The same session with sysex pacing armed on slot 0 at tick 1.\<close>

definition paced_world :: world where
  "paced_world = upd_sysex 0 (\<lambda>s. s\<lparr>sysex_start := 1\<rparr>) (none_world\<lparr>ticks := 1\<rparr>)"

text \<open>The sysex state of one slot, \<^verbatim>\<open>midi.sysex[slot]\<close>, as a projection of the session.\<close>

definition sysex_of_slot :: "nat \<Rightarrow> world \<Rightarrow> sysex_t" where
  "sysex_of_slot slot m = sysex m slot"

text \<open>The pacing rule as the specification words it, for comparison with \<open>delay_in_ms\<close>.\<close>

definition spec_delay_in_ms :: "nat \<Rightarrow> int" where
  "spec_delay_in_ms L = \<lceil>real L * 1.25 / 3.125\<rceil> + 2"

text \<open>
  The states the parser keeps to: a backend is selected, no slot's sysex fill exceeds the
  buffer, a slot that collects a sysex message has room for the terminator, and the
  pending command lies inside \<^verbatim>\<open>cmd.buf\<close>.
\<close>

definition midi_inv :: "world \<Rightarrow> bool" where
  "midi_inv m \<longleftrightarrow>
     handler m \<noteq> None \<and>
     (\<forall>slot < MIDI_DEVS.
        sysex_used (sysex m slot) \<le> MIDI_SYSEX_SIZE \<and>
        (status m slot = 0xf0 \<longrightarrow> sysex_used (sysex m slot) < MIDI_SYSEX_SIZE) \<and>
        cmd_len (cmd m slot) \<le> 8 \<and> cmd_pos (cmd m slot) < 8)"

section \<open>Disney Sound Source (disney.cpp)\<close>

text \<open>
  A frame is a pair of equal samples. \<^verbatim>\<open>lut_u8to16\<close> (\<^verbatim>\<open>mixer.h\<close>) is not among the
  sources at hand and is a parameter \<open>lut\<close> of the operations that render. Times are
  milliseconds of the virtual clock; \<^verbatim>\<open>PIC_FullIndex()\<close> and the outcome of
  \<^verbatim>\<open>channel->WakeUp()\<close> are inputs \<open>now\<close> and \<open>woke\<close> of the operations that read
  them. \<open>channel\<close> holds the frames handed to \<^verbatim>\<open>channel->AddSamples_sfloat\<close> so far.
\<close>

type_synonym AudioFrame = "real \<times> real"

record Disney =
  channel :: "AudioFrame list"
  fifo :: "u8 list"
  render_queue :: "AudioFrame list"
  last_rendered_ms :: real
  status_data :: u8

definition dac_rate_hz :: real where
  "dac_rate_hz = 7000"

definition ms_per_frame :: real where
  "ms_per_frame = 1000.0 / dac_rate_hz"

definition power_on_bits :: u8 where
  "power_on_bits = 0b1111"

definition max_fifo_size :: nat where
  "max_fifo_size = 16"

definition IsFull :: "Disney \<Rightarrow> bool" where
  "IsFull d \<longleftrightarrow> max_fifo_size \<le> length (fifo d)"

text \<open>\<^verbatim>\<open>Render\<close>: the assertion on a non-empty FIFO is the \<open>None\<close> branch.\<close>

definition Render :: "(u8 \<Rightarrow> real) \<Rightarrow> Disney \<Rightarrow> (AudioFrame \<times> Disney) option" where
  "Render lut d =
     (case fifo d of
        [] \<Rightarrow> None
      | front # rest \<Rightarrow>
          (let sample = lut front;
               frame = (sample, sample)
           in Some (frame, if 1 < length (fifo d) then d\<lparr>fifo := rest\<rparr> else d)))"

text \<open>The loop of \<^verbatim>\<open>RenderUpToNow\<close>: keep rendering until the cursor is current.\<close>

function render_loop :: "(u8 \<Rightarrow> real) \<Rightarrow> real \<Rightarrow> Disney \<Rightarrow> Disney option" where
  "render_loop lut now d =
     (if last_rendered_ms d < now then
        (case Render lut (d\<lparr>last_rendered_ms := last_rendered_ms d + ms_per_frame\<rparr>) of
           None \<Rightarrow> None
         | Some (frame, d') \<Rightarrow> render_loop lut now (d'\<lparr>render_queue := render_queue d' @ [frame]\<rparr>))
      else Some d)"
  by pat_completeness auto
termination
proof (relation "measure (\<lambda>(lut, now, d). nat \<lceil>(now - last_rendered_ms d) * 7\<rceil>)", goal_cases)
  case 1
  show ?case by simp
next
  case prems: (2 lut now d x2 frame d')
  have eq: "(now - (last_rendered_ms d + 1 / 7)) * 7 = (now - last_rendered_ms d) * 7 - 1"
    by (simp add: algebra_simps)
  have step: "\<lceil>(now - (last_rendered_ms d + 1 / 7)) * 7\<rceil> = \<lceil>(now - last_rendered_ms d) * 7\<rceil> - 1"
    by (simp only: eq ceiling_diff_one)
  from prems have cursor: "last_rendered_ms d' = last_rendered_ms d + 1 / 7"
    by (auto simp add: Render_def ms_per_frame_def dac_rate_hz_def Let_def
             split: list.splits if_splits)
  from prems have pos: "0 < \<lceil>(now - last_rendered_ms d) * 7\<rceil>"
    by simp
  have "nat \<lceil>(now - last_rendered_ms d') * 7\<rceil> < nat \<lceil>(now - last_rendered_ms d) * 7\<rceil>"
    unfolding cursor step using pos by linarith
  then show ?case by simp
qed

definition RenderUpToNow :: "(u8 \<Rightarrow> real) \<Rightarrow> real \<Rightarrow> bool \<Rightarrow> Disney \<Rightarrow> Disney option" where
  "RenderUpToNow lut now woke d =
     (if woke then Some (d\<lparr>last_rendered_ms := now\<rparr>) else render_loop lut now d)"

text \<open>
  \<^verbatim>\<open>WriteData\<close>: the handler is installed for byte-wide access, so the value written is a
  byte and \<^verbatim>\<open>check_cast<uint8_t>\<close> leaves it as it is.
\<close>

definition WriteData :: "(u8 \<Rightarrow> real) \<Rightarrow> u8 \<Rightarrow> real \<Rightarrow> bool \<Rightarrow> Disney \<Rightarrow> Disney option" where
  "WriteData lut data now woke d =
     (case RenderUpToNow lut now woke d of
        None \<Rightarrow> None
      | Some d1 \<Rightarrow> Some (if \<not> IsFull d1 then d1\<lparr>fifo := fifo d1 @ [data]\<rparr> else d1))"

definition WriteControl :: "(u8 \<Rightarrow> real) \<Rightarrow> real \<Rightarrow> bool \<Rightarrow> Disney \<Rightarrow> Disney option" where
  "WriteControl lut now woke d = RenderUpToNow lut now woke d"

text \<open>\<^verbatim>\<open>ReadStatus\<close>: \<^verbatim>\<open>fifo_full\<close> is bit 6 of the status byte.\<close>

definition ReadStatus :: "Disney \<Rightarrow> u8 \<times> Disney" where
  "ReadStatus d =
     (let d1 = d\<lparr>status_data := (if IsFull d then set_bit 6 (status_data d)
                                   else unset_bit 6 (status_data d))\<rparr>
      in (status_data d1, d1))"

text \<open>The two loops of \<^verbatim>\<open>AudioCallback\<close>, each counting \<^verbatim>\<open>frames_remaining\<close> down.\<close>

fun drain_queue :: "nat \<Rightarrow> Disney \<Rightarrow> nat \<times> Disney" where
  "drain_queue 0 d = (0, d)"
| "drain_queue (Suc n) d =
     (case render_queue d of
        [] \<Rightarrow> (Suc n, d)
      | front # rest \<Rightarrow> drain_queue n (d\<lparr>channel := channel d @ [front], render_queue := rest\<rparr>))"

fun render_remainder :: "(u8 \<Rightarrow> real) \<Rightarrow> nat \<Rightarrow> Disney \<Rightarrow> Disney option" where
  "render_remainder lut 0 d = Some d"
| "render_remainder lut (Suc n) d =
     (case Render lut d of
        None \<Rightarrow> None
      | Some (frame, d') \<Rightarrow> render_remainder lut n (d'\<lparr>channel := channel d' @ [frame]\<rparr>))"

definition AudioCallback :: "(u8 \<Rightarrow> real) \<Rightarrow> 16 word \<Rightarrow> real \<Rightarrow> Disney \<Rightarrow> Disney option" where
  "AudioCallback lut requested_frames now d =
     (case drain_queue (unat requested_frames) d of
        (frames_remaining, d1) \<Rightarrow>
          (case render_remainder lut frames_remaining d1 of
             None \<Rightarrow> None
           | Some d2 \<Rightarrow> Some (d2\<lparr>last_rendered_ms := now\<rparr>)))"

text \<open>
  The constructor primes the FIFO with \<^verbatim>\<open>Mixer_GetSilentDOSSample<uint8_t>()\<close>
  (\<^verbatim>\<open>mixer.h\<close>, a parameter here) and sets the power bits.
\<close>

definition Disney_ctor :: "u8 \<Rightarrow> Disney" where
  "Disney_ctor silent =
     \<lparr>channel = [], fifo = [silent], render_queue = [], last_rendered_ms = 0.0,
      status_data = power_on_bits\<rparr>"

text \<open>The port handlers and the audio callback as one alphabet of operations.\<close>

datatype disney_op =
    OpWriteData u8 real bool
  | OpWriteControl real bool
  | OpReadStatus
  | OpAudioCallback "16 word" real

fun disney_step :: "(u8 \<Rightarrow> real) \<Rightarrow> disney_op \<Rightarrow> Disney \<Rightarrow> Disney option" where
  "disney_step lut (OpWriteData data now woke) d = WriteData lut data now woke d"
| "disney_step lut (OpWriteControl now woke) d = WriteControl lut now woke d"
| "disney_step lut OpReadStatus d = Some (snd (ReadStatus d))"
| "disney_step lut (OpAudioCallback n now) d = AudioCallback lut n now d"

fun disney_run :: "(u8 \<Rightarrow> real) \<Rightarrow> disney_op list \<Rightarrow> Disney \<Rightarrow> Disney option" where
  "disney_run lut [] d = Some d"
| "disney_run lut (operation # rest) d =
     (case disney_step lut operation d of None \<Rightarrow> None | Some d' \<Rightarrow> disney_run lut rest d')"

text \<open>The frames \<^verbatim>\<open>Render\<close> yields when called \<open>k\<close> times in a row on a FIFO.\<close>

definition rendered :: "(u8 \<Rightarrow> real) \<Rightarrow> nat \<Rightarrow> u8 list \<Rightarrow> AudioFrame list" where
  "rendered lut k q = map (\<lambda>b. (lut b, lut b)) (take k (q @ replicate k (last q)))"

text \<open>A sample table for the examples below: each byte stands for itself.\<close>

definition sample_lut :: "u8 \<Rightarrow> real" where
  "sample_lut b = real (unat b)"

text \<open>The bounds of the FIFO, and a burst of writes that all see the same virtual time.\<close>

definition fifo_ok :: "Disney \<Rightarrow> bool" where
  "fifo_ok d \<longleftrightarrow> 1 \<le> length (fifo d) \<and> length (fifo d) \<le> max_fifo_size"

definition writes_at :: "real \<Rightarrow> (u8 \<times> bool) list \<Rightarrow> disney_op list" where
  "writes_at now ws = map (\<lambda>(data, woke). OpWriteData data now woke) ws"

section \<open>Properties of the MIDI router\<close>

lemma MIDI_evt_len_table_length: "length MIDI_evt_len_table = 256"
  by (simp add: MIDI_evt_len_table_def)

lemma bit7_iff: "(d::u8) AND 0x80 = 0 \<longleftrightarrow> \<not> bit d 7"
proof
  assume a: "d AND 0x80 = 0"
  have "bit (d AND 0x80) 7 = bit d 7" by (simp add: bit_and_iff)
  with a show "\<not> bit d 7" by simp
next
  assume a: "\<not> bit d 7"
  show "d AND 0x80 = 0"
  proof (rule bit_word_eqI)
    fix n assume n: "n < LENGTH(8)"
    have "(0x80 :: u8) = 2 ^ 7" by simp
    then have "bit (0x80 :: u8) n \<longleftrightarrow> n = 7"
      by (simp only: bit_exp_iff) (use n in auto)
    with a show "bit (d AND 0x80) n = bit (0::u8) n"
      by (auto simp add: bit_and_iff)
  qed
qed

lemma data_byte_iff: "(d::u8) AND 0x80 = 0 \<longleftrightarrow> d < 0x80"
proof -
  have "(d AND mask 7 = d) = (d < 2 ^ 7)"
    by (rule mask_eq_iff_w2p) (simp add: word_size)
  moreover have "(d AND mask 7 = d) \<longleftrightarrow> \<not> bit d 7"
  proof
    assume e: "d AND mask 7 = d"
    have "bit (d AND mask 7) 7 = False" by (simp add: bit_and_iff bit_mask_iff)
    with e show "\<not> bit d 7" by simp
  next
    assume a: "\<not> bit d 7"
    show "d AND mask 7 = d"
    proof (rule bit_word_eqI)
      fix n assume "n < LENGTH(8)"
      then have "n < 7 \<or> n = 7" by auto
      with a show "bit (d AND mask 7) n = bit d n"
        by (auto simp add: bit_and_iff bit_mask_iff)
    qed
  qed
  ultimately show ?thesis by (simp add: bit7_iff)
qed

lemma data_byte_not_realtime: "(d::u8) AND 0x80 = 0 \<Longrightarrow> \<not> 0xf8 \<le> d"
proof -
  assume "d AND 0x80 = 0"
  then have "d < 0x80" by (simp add: data_byte_iff)
  then have "unat d < 128" by (simp add: word_less_nat_alt)
  then show "\<not> 0xf8 \<le> d" by (simp add: word_le_nat_alt)
qed

lemmas parse_defs = latch_status_def cmd_collect_def
  sysex_append_def sysex_finish_def realtime_out_def rearm_pacing_def
  upd_cmd_def upd_sysex_def PlayMsg_def PlaySysex_def emit_def GetTicks_def

lemma pacing_wait_frame [simp]:
  "rt_buf (pacing_wait slot m) = rt_buf m"
  "status (pacing_wait slot m) = status m"
  "cmd_r (pacing_wait slot m) = cmd_r m"
  "cmd (pacing_wait slot m) = cmd m"
  "sysex (pacing_wait slot m) = sysex m"
  "handler (pacing_wait slot m) = handler m"
  "capture_midi (pacing_wait slot m) = capture_midi m"
  by (simp_all add: pacing_wait_def Delay_def emit_def Let_def)

lemma pacing_wait_backend [simp]:
  "filter is_backend (trace (pacing_wait slot m)) = filter is_backend (trace m)"
  by (simp add: pacing_wait_def Delay_def emit_def Let_def)

lemma pacing_wait_unarmed: "sysex_start (sysex m slot) = 0 \<Longrightarrow> pacing_wait slot m = m"
  by (simp add: pacing_wait_def)

lemma evt90: "MIDI_evt_len 0x90 = 3"
  by (simp add: MIDI_evt_len_def MIDI_evt_len_table_def)

lemma evtF0: "MIDI_evt_len 0xF0 = 0"
  by (simp add: MIDI_evt_len_def MIDI_evt_len_table_def)

lemma evtF7: "MIDI_evt_len 0xF7 = 0"
  by (simp add: MIDI_evt_len_def MIDI_evt_len_table_def)

text \<open>
  Claim C1. On a slot whose parser state is freshly cleared (status 0, \<open>cmd.pos = 0\<close>,
  \<open>cmd.len = 0\<close>, pacing not armed), the bytes \<open>0x90, 0x40, 0x7F, 0x41, 0x7F\<close> make the
  router call \<^verbatim>\<open>PlayMsg\<close> exactly twice: first on a buffer that starts
  \<open>0x90, 0x40, 0x7F\<close>, then on one that starts \<open>0x90, 0x41, 0x7F\<close>, each a three-byte
  message for the backend. After each of the two dispatches \<open>cmd.pos\<close> is 1, so the cached
  status byte is reused.
\<close>

theorem running_status_note_on:
  assumes "slot < MIDI_DEVS" and "handler m \<noteq> None"
    and "status m slot = 0" and "cmd_pos (cmd m slot) = 0" and "cmd_len (cmd m slot) = 0"
    and "sysex_start (sysex m slot) = 0"
  shows "\<exists>m3 m5 b1 b2.
     feed (on_slot slot [0x90, 0x40, 0x7F]) m = Some m3 \<and>
     backend_calls m3 = backend_calls m @ [EvPlayMsg b1] \<and>
     cmd_pos (cmd m3 slot) = 1 \<and>
     feed (on_slot slot [0x41, 0x7F]) m3 = Some m5 \<and>
     feed (on_slot slot [0x90, 0x40, 0x7F, 0x41, 0x7F]) m = Some m5 \<and>
     backend_calls m5 = backend_calls m @ [EvPlayMsg b1, EvPlayMsg b2] \<and>
     cmd_pos (cmd m5 slot) = 1 \<and>
     b1 = map ((cmd_buf (cmd m slot))(0 := 0x90, 1 := 0x40, 2 := 0x7F)) [0..<8] \<and>
     b2 = map ((cmd_buf (cmd m slot))(0 := 0x90, 1 := 0x41, 2 := 0x7F)) [0..<8] \<and>
     coremidi_PlayMsg b1 = [0x90, 0x40, 0x7F] \<and>
     coremidi_PlayMsg b2 = [0x90, 0x41, 0x7F]"
proof -
  from assms(2) obtain h where "handler m = Some h" by blast
  with assms show ?thesis
    by (simp add: on_slot_def MIDI_RawOutByte_def pacing_wait_unarmed parse_defs evt90
          backend_calls_def Let_def coremidi_PlayMsg_def upt_rec)
qed

theorem running_status_note_on_witness:
  "\<exists>m5. feed (on_slot 0 [0x90, 0x40, 0x7F, 0x41, 0x7F]) none_world = Some m5 \<and>
     backend_calls m5 = [EvPlayMsg [0x90, 0x40, 0x7F, 0, 0, 0, 0, 0], EvPlayMsg [0x90, 0x41, 0x7F, 0, 0, 0, 0, 0]] \<and>
     cmd_pos (cmd m5 0) = 1"
proof -
  have "\<exists>m3 m5 b1 b2.
     feed (on_slot 0 [0x90, 0x40, 0x7F]) none_world = Some m3 \<and>
     backend_calls m3 = backend_calls none_world @ [EvPlayMsg b1] \<and>
     cmd_pos (cmd m3 0) = 1 \<and>
     feed (on_slot 0 [0x41, 0x7F]) m3 = Some m5 \<and>
     feed (on_slot 0 [0x90, 0x40, 0x7F, 0x41, 0x7F]) none_world = Some m5 \<and>
     backend_calls m5 = backend_calls none_world @ [EvPlayMsg b1, EvPlayMsg b2] \<and>
     cmd_pos (cmd m5 0) = 1 \<and>
     b1 = map ((cmd_buf (cmd none_world 0))(0 := 0x90, 1 := 0x40, 2 := 0x7F)) [0..<8] \<and>
     b2 = map ((cmd_buf (cmd none_world 0))(0 := 0x90, 1 := 0x41, 2 := 0x7F)) [0..<8] \<and>
     coremidi_PlayMsg b1 = [0x90, 0x40, 0x7F] \<and>
     coremidi_PlayMsg b2 = [0x90, 0x41, 0x7F]"
    by (rule running_status_note_on)
       (simp_all add: none_world_def zero_world_def MIDI_DEVS_def)
  then obtain m5 b1 b2 where
    f: "feed (on_slot 0 [0x90, 0x40, 0x7F, 0x41, 0x7F]) none_world = Some m5"
    and c: "backend_calls m5 = backend_calls none_world @ [EvPlayMsg b1, EvPlayMsg b2]"
    and p: "cmd_pos (cmd m5 0) = 1"
    and b1: "b1 = map ((cmd_buf (cmd none_world 0))(0 := 0x90, 1 := 0x40, 2 := 0x7F)) [0..<8]"
    and b2: "b2 = map ((cmd_buf (cmd none_world 0))(0 := 0x90, 1 := 0x41, 2 := 0x7F)) [0..<8]"
    by blast
  have "backend_calls none_world = []"
    by (simp add: backend_calls_def none_world_def zero_world_def)
  moreover have "b1 = [0x90, 0x40, 0x7F, 0, 0, 0, 0, 0]"
    unfolding b1 by (simp add: none_world_def zero_world_def upt_rec)
  moreover have "b2 = [0x90, 0x41, 0x7F, 0, 0, 0, 0, 0]"
    unfolding b2 by (simp add: none_world_def zero_world_def upt_rec)
  ultimately show ?thesis using f c p by simp
qed

text \<open>
  Claim C2. A byte \<open>b \<ge> 0xF8\<close> given to \<^verbatim>\<open>MIDI_RawOutByte\<close> on any slot is handed to the
  backend at once, by one \<^verbatim>\<open>PlayMsg\<close> call on \<^verbatim>\<open>rt_buf\<close> with \<open>b\<close> as its only byte
  written, and the parsing state of every slot (status, the pending command, the sysex
  buffer and its fill) stays as it was. A fixed-length message that was in progress
  therefore completes afterwards: with one byte to go the next data byte dispatches it,
  with two bytes to go the next two do, in both cases with the bytes collected before the
  realtime byte.
\<close>

theorem realtime_byte_frame:
  assumes "0xf8 \<le> b" and "slot < MIDI_DEVS" and "handler m \<noteq> None"
  shows "\<exists>m'. MIDI_RawOutByte b slot m = Some m' \<and>
     backend_calls m' = backend_calls m @ [EvPlayMsg (map ((rt_buf m)(0 := b)) [0..<8])] \<and>
     status m' = status m \<and> cmd m' = cmd m \<and> sysex m' = sysex m \<and>
     (\<forall>d. d AND 0x80 = 0 \<and> status m slot \<noteq> 0xf0 \<and> cmd_len (cmd m slot) \<noteq> 0 \<and>
          cmd_pos (cmd m slot) < 8 \<and> cmd_len (cmd m slot) \<le> cmd_pos (cmd m slot) + 1 \<longrightarrow>
        (\<exists>m2. feed (on_slot slot [d]) m' = Some m2 \<and>
           backend_calls m2 = backend_calls m' @
              [EvPlayMsg (map ((cmd_buf (cmd m slot))(cmd_pos (cmd m slot) := d)) [0..<8])] \<and>
           cmd_pos (cmd m2 slot) = 1 \<and> cmd_len (cmd m2 slot) = cmd_len (cmd m slot) \<and>
           status m2 = status m)) \<and>
     (\<forall>d1 d2. d1 AND 0x80 = 0 \<and> d2 AND 0x80 = 0 \<and> status m slot \<noteq> 0xf0 \<and>
          cmd_pos (cmd m slot) < 7 \<and> cmd_len (cmd m slot) = cmd_pos (cmd m slot) + 2 \<longrightarrow>
        (\<exists>m3. feed (on_slot slot [d1, d2]) m' = Some m3 \<and>
           backend_calls m3 = backend_calls m' @
              [EvPlayMsg (map ((cmd_buf (cmd m slot))
                  (cmd_pos (cmd m slot) := d1, cmd_pos (cmd m slot) + 1 := d2)) [0..<8])] \<and>
           cmd_pos (cmd m3 slot) = 1 \<and> cmd_len (cmd m3 slot) = cmd_len (cmd m slot) \<and>
           status m3 = status m))"
proof -
  from assms(3) obtain h where h: "handler m = Some h" by blast
  define m' where "m' = (pacing_wait slot m)\<lparr>rt_buf := (rt_buf m)(0 := b),
      trace := trace (pacing_wait slot m) @ [EvPlayMsg (map ((rt_buf m)(0 := b)) [0..<8])]\<rparr>"
  have step: "MIDI_RawOutByte b slot m = Some m'"
    using assms(1,2) h
    by (simp add: MIDI_RawOutByte_def realtime_out_def PlayMsg_def emit_def Let_def m'_def)
  have frame: "status m' = status m" "cmd m' = cmd m" "sysex m' = sysex m" "handler m' = Some h"
    "capture_midi m' = capture_midi m"
    by (simp_all add: m'_def h)
  have calls: "backend_calls m' = backend_calls m @ [EvPlayMsg (map ((rt_buf m)(0 := b)) [0..<8])]"
    by (simp add: m'_def backend_calls_def)
  have one: "\<exists>m2. feed (on_slot slot [d]) m' = Some m2 \<and>
           backend_calls m2 = backend_calls m' @
              [EvPlayMsg (map ((cmd_buf (cmd m slot))(cmd_pos (cmd m slot) := d)) [0..<8])] \<and>
           cmd_pos (cmd m2 slot) = 1 \<and> cmd_len (cmd m2 slot) = cmd_len (cmd m slot) \<and>
           status m2 = status m"
    if d: "d AND 0x80 = 0" "status m slot \<noteq> 0xf0" "cmd_len (cmd m slot) \<noteq> 0"
          "cmd_pos (cmd m slot) < 8" "cmd_len (cmd m slot) \<le> cmd_pos (cmd m slot) + 1" for d
  proof -
    from d(1) have nrt: "\<not> 0xf8 \<le> d" by (rule data_byte_not_realtime)
    show ?thesis
      using d nrt assms(2) frame
      by (simp add: on_slot_def MIDI_RawOutByte_def Let_def latch_status_def cmd_collect_def
            upd_cmd_def PlayMsg_def emit_def backend_calls_def)
  qed
  have two: "\<exists>m3. feed (on_slot slot [d1, d2]) m' = Some m3 \<and>
           backend_calls m3 = backend_calls m' @
              [EvPlayMsg (map ((cmd_buf (cmd m slot))
                  (cmd_pos (cmd m slot) := d1, cmd_pos (cmd m slot) + 1 := d2)) [0..<8])] \<and>
           cmd_pos (cmd m3 slot) = 1 \<and> cmd_len (cmd m3 slot) = cmd_len (cmd m slot) \<and>
           status m3 = status m"
    if d: "d1 AND 0x80 = 0" "d2 AND 0x80 = 0" "status m slot \<noteq> 0xf0"
          "cmd_pos (cmd m slot) < 7" "cmd_len (cmd m slot) = cmd_pos (cmd m slot) + 2" for d1 d2
  proof -
    from d(1) have nrt1: "\<not> 0xf8 \<le> d1" by (rule data_byte_not_realtime)
    from d(2) have nrt2: "\<not> 0xf8 \<le> d2" by (rule data_byte_not_realtime)
    show ?thesis
      using d nrt1 nrt2 assms(2) frame
      by (simp add: on_slot_def MIDI_RawOutByte_def Let_def latch_status_def cmd_collect_def
            upd_cmd_def PlayMsg_def emit_def backend_calls_def)
  qed
  from step frame calls one two show ?thesis by blast
qed

text \<open>
  What the backend makes of such a buffer is read off the length table: one byte for the
  realtime statuses the table knows, nothing for \<open>0xF9\<close>, \<open>0xFD\<close> and \<open>0xFF\<close>.
\<close>

lemma realtime_table_entries:
  "map MIDI_evt_len [0xF8, 0xF9, 0xFA, 0xFB, 0xFC, 0xFD, 0xFE, 0xFF] = [1, 0, 1, 1, 1, 0, 1, 0]"
  by (simp add: MIDI_evt_len_def MIDI_evt_len_table_def)

lemma realtime_packet:
  "MIDI_evt_len b = 1 \<Longrightarrow> coremidi_PlayMsg (map ((rt_buf m)(0 := b)) [0..<8]) = [b]"
  by (simp add: coremidi_PlayMsg_def upt_rec)

text \<open>The note-on of claim C1 with a start byte \<open>0xFA\<close> between its data bytes.\<close>

theorem realtime_byte_frame_witness:
  "(\<exists>m1 m2 m3. feed (on_slot 0 [0x90, 0x40]) none_world = Some m1 \<and>
     MIDI_RawOutByte 0xFA 0 m1 = Some m2 \<and>
     backend_calls m2 = [EvPlayMsg [0xFA, 0, 0, 0, 0, 0, 0, 0]] \<and>
     status m2 = status m1 \<and> cmd m2 = cmd m1 \<and> sysex m2 = sysex m1 \<and>
     feed (on_slot 0 [0x7F]) m2 = Some m3 \<and>
     backend_calls m3 = [EvPlayMsg [0xFA, 0, 0, 0, 0, 0, 0, 0], EvPlayMsg [0x90, 0x40, 0x7F, 0, 0, 0, 0, 0]]) \<and>
   (\<exists>n1 n2 n3. feed (on_slot 0 [0x90]) none_world = Some n1 \<and>
     MIDI_RawOutByte 0xFA 0 n1 = Some n2 \<and>
     feed (on_slot 0 [0x40, 0x7F]) n2 = Some n3 \<and>
     backend_calls n3 = [EvPlayMsg [0xFA, 0, 0, 0, 0, 0, 0, 0], EvPlayMsg [0x90, 0x40, 0x7F, 0, 0, 0, 0, 0]])"
proof -
  have "\<exists>m1. feed (on_slot 0 [0x90, 0x40]) none_world = Some m1 \<and> handler m1 \<noteq> None \<and>
      status m1 0 \<noteq> 0xf0 \<and> cmd_len (cmd m1 0) \<noteq> 0 \<and> cmd_pos (cmd m1 0) < 8 \<and>
      cmd_len (cmd m1 0) \<le> cmd_pos (cmd m1 0) + 1 \<and> backend_calls m1 = [] \<and>
      rt_buf m1 = (\<lambda>i. 0) \<and> cmd_buf (cmd m1 0) = (\<lambda>i. 0)(0 := 0x90, 1 := 0x40) \<and>
      cmd_pos (cmd m1 0) = 2"
    by (simp add: on_slot_def MIDI_RawOutByte_def pacing_wait_def latch_status_def
          cmd_collect_def upd_cmd_def evt90 none_world_def zero_world_def MIDI_DEVS_def Let_def
          backend_calls_def)
  then obtain m1 where f1: "feed (on_slot 0 [0x90, 0x40]) none_world = Some m1"
    and h1: "handler m1 \<noteq> None"
    and m1_facts: "(0x7F :: u8) AND 0x80 = 0 \<and> status m1 0 \<noteq> 0xf0 \<and> cmd_len (cmd m1 0) \<noteq> 0 \<and>
          cmd_pos (cmd m1 0) < 8 \<and> cmd_len (cmd m1 0) \<le> cmd_pos (cmd m1 0) + 1"
    and calls1: "backend_calls m1 = []" "rt_buf m1 = (\<lambda>i. 0)"
      "cmd_buf (cmd m1 0) = (\<lambda>i. 0)(0 := 0x90, 1 := 0x40)" "cmd_pos (cmd m1 0) = 2"
    by auto
  have pre: "(0xf8 :: u8) \<le> 0xFA" "(0::nat) < MIDI_DEVS" "handler m1 \<noteq> None"
    using h1 by (simp_all add: MIDI_DEVS_def)
  from realtime_byte_frame [OF pre] obtain m2 where
    s: "MIDI_RawOutByte 0xFA 0 m1 = Some m2"
    and c: "backend_calls m2 = backend_calls m1 @ [EvPlayMsg (map ((rt_buf m1)(0 := 0xFA)) [0..<8])]"
    and fr: "status m2 = status m1" "cmd m2 = cmd m1" "sysex m2 = sysex m1"
    and l: "\<forall>d. d AND 0x80 = 0 \<and> status m1 0 \<noteq> 0xf0 \<and> cmd_len (cmd m1 0) \<noteq> 0 \<and>
          cmd_pos (cmd m1 0) < 8 \<and> cmd_len (cmd m1 0) \<le> cmd_pos (cmd m1 0) + 1 \<longrightarrow>
        (\<exists>m3. feed (on_slot 0 [d]) m2 = Some m3 \<and>
           backend_calls m3 = backend_calls m2 @
              [EvPlayMsg (map ((cmd_buf (cmd m1 0))(cmd_pos (cmd m1 0) := d)) [0..<8])] \<and>
           cmd_pos (cmd m3 0) = 1 \<and> cmd_len (cmd m3 0) = cmd_len (cmd m1 0) \<and>
           status m3 = status m1)"
    by (elim exE conjE) (rule that)
  from l [rule_format, OF m1_facts] obtain m3 where
    t: "feed (on_slot 0 [0x7F]) m2 = Some m3"
    and c3: "backend_calls m3 = backend_calls m2 @
              [EvPlayMsg (map ((cmd_buf (cmd m1 0))(cmd_pos (cmd m1 0) := 0x7F)) [0..<8])]"
    by (elim exE conjE) (rule that)
  have "backend_calls m2 = [EvPlayMsg [0xFA, 0, 0, 0, 0, 0, 0, 0]]"
    unfolding c calls1 by (simp add: upt_rec)
  moreover have "backend_calls m3 =
      [EvPlayMsg [0xFA, 0, 0, 0, 0, 0, 0, 0], EvPlayMsg [0x90, 0x40, 0x7F, 0, 0, 0, 0, 0]]"
    unfolding c3 c calls1 by (simp add: upt_rec)
  ultimately have first: "\<exists>m1 m2 m3. feed (on_slot 0 [0x90, 0x40]) none_world = Some m1 \<and>
     MIDI_RawOutByte 0xFA 0 m1 = Some m2 \<and>
     backend_calls m2 = [EvPlayMsg [0xFA, 0, 0, 0, 0, 0, 0, 0]] \<and>
     status m2 = status m1 \<and> cmd m2 = cmd m1 \<and> sysex m2 = sysex m1 \<and>
     feed (on_slot 0 [0x7F]) m2 = Some m3 \<and>
     backend_calls m3 = [EvPlayMsg [0xFA, 0, 0, 0, 0, 0, 0, 0], EvPlayMsg [0x90, 0x40, 0x7F, 0, 0, 0, 0, 0]]"
    using f1 s fr t by blast
  have "\<exists>n1. feed (on_slot 0 [0x90]) none_world = Some n1 \<and> handler n1 \<noteq> None \<and>
      status n1 0 \<noteq> 0xf0 \<and> cmd_pos (cmd n1 0) < 7 \<and>
      cmd_len (cmd n1 0) = cmd_pos (cmd n1 0) + 2 \<and> backend_calls n1 = [] \<and>
      rt_buf n1 = (\<lambda>i. 0) \<and> cmd_buf (cmd n1 0) = (\<lambda>i. 0)(0 := 0x90) \<and>
      cmd_pos (cmd n1 0) = 1"
    by (simp add: on_slot_def MIDI_RawOutByte_def pacing_wait_def latch_status_def
          cmd_collect_def upd_cmd_def evt90 none_world_def zero_world_def MIDI_DEVS_def Let_def
          backend_calls_def)
  then obtain n1 where g1: "feed (on_slot 0 [0x90]) none_world = Some n1"
    and k1: "handler n1 \<noteq> None"
    and n1_facts: "(0x40 :: u8) AND 0x80 = 0 \<and> (0x7F :: u8) AND 0x80 = 0 \<and> status n1 0 \<noteq> 0xf0 \<and>
          cmd_pos (cmd n1 0) < 7 \<and> cmd_len (cmd n1 0) = cmd_pos (cmd n1 0) + 2"
    and calls2: "backend_calls n1 = []" "rt_buf n1 = (\<lambda>i. 0)"
      "cmd_buf (cmd n1 0) = (\<lambda>i. 0)(0 := 0x90)" "cmd_pos (cmd n1 0) = 1"
    by auto
  have pre2: "(0xf8 :: u8) \<le> 0xFA" "(0::nat) < MIDI_DEVS" "handler n1 \<noteq> None"
    using k1 by (simp_all add: MIDI_DEVS_def)
  from realtime_byte_frame [OF pre2] obtain n2 where
    s2: "MIDI_RawOutByte 0xFA 0 n1 = Some n2"
    and e: "backend_calls n2 = backend_calls n1 @ [EvPlayMsg (map ((rt_buf n1)(0 := 0xFA)) [0..<8])]"
    and l2: "\<forall>d1 d2. d1 AND 0x80 = 0 \<and> d2 AND 0x80 = 0 \<and> status n1 0 \<noteq> 0xf0 \<and>
          cmd_pos (cmd n1 0) < 7 \<and> cmd_len (cmd n1 0) = cmd_pos (cmd n1 0) + 2 \<longrightarrow>
        (\<exists>m3. feed (on_slot 0 [d1, d2]) n2 = Some m3 \<and>
           backend_calls m3 = backend_calls n2 @
              [EvPlayMsg (map ((cmd_buf (cmd n1 0))
                  (cmd_pos (cmd n1 0) := d1, cmd_pos (cmd n1 0) + 1 := d2)) [0..<8])] \<and>
           cmd_pos (cmd m3 0) = 1 \<and> cmd_len (cmd m3 0) = cmd_len (cmd n1 0) \<and>
           status m3 = status n1)"
    by (elim exE conjE) (rule that)
  from l2 [rule_format, OF n1_facts] obtain n3 where
    t2: "feed (on_slot 0 [0x40, 0x7F]) n2 = Some n3"
    and e3: "backend_calls n3 = backend_calls n2 @
              [EvPlayMsg (map ((cmd_buf (cmd n1 0))
                  (cmd_pos (cmd n1 0) := 0x40, cmd_pos (cmd n1 0) + 1 := 0x7F)) [0..<8])]"
    by (elim exE conjE) (rule that)
  have "backend_calls n3 =
      [EvPlayMsg [0xFA, 0, 0, 0, 0, 0, 0, 0], EvPlayMsg [0x90, 0x40, 0x7F, 0, 0, 0, 0, 0]]"
    unfolding e3 e calls2 by (simp add: upt_rec)
  with g1 s2 t2 have second: "\<exists>n1 n2 n3. feed (on_slot 0 [0x90]) none_world = Some n1 \<and>
     MIDI_RawOutByte 0xFA 0 n1 = Some n2 \<and>
     feed (on_slot 0 [0x40, 0x7F]) n2 = Some n3 \<and>
     backend_calls n3 = [EvPlayMsg [0xFA, 0, 0, 0, 0, 0, 0, 0], EvPlayMsg [0x90, 0x40, 0x7F, 0, 0, 0, 0, 0]]"
    by blast
  from first second show ?thesis by (rule conjI)
qed

text \<open>\<^verbatim>\<open>MIDI_ClearBuffer\<close> leaves a slot in the cleared state the next results start from.\<close>

lemma cleared_slot:
  assumes "MIDI_ClearBuffer slot m = Some m'"
  shows "slot < MIDI_DEVS" and "status m' slot = 0" and "cmd_pos (cmd m' slot) = 0"
    and "cmd_len (cmd m' slot) = 0" and "sysex_used (sysex m' slot) = 0"
    and "handler m' = handler m" and "sysex_start (sysex m' slot) = sysex_start (sysex m slot)"
  using assms
  by (auto simp add: MIDI_ClearBuffer_def upd_cmd_def upd_sysex_def Let_def split: if_splits)

text \<open>
  Claim C5. On a freshly cleared slot the bytes \<open>0xF0, 0x41, 0x10, 0x00, 0x04, 0x00, 0xF7\<close>
  produce exactly one backend call, a \<^verbatim>\<open>PlaySysex\<close> of seven bytes whose last byte is the
  terminator \<open>0xF7\<close>, appended before the dispatch. This holds whether or not pacing is
  armed for the slot.
\<close>

theorem sysex_dispatch:
  assumes "slot < MIDI_DEVS" and "handler m \<noteq> None"
    and "status m slot = 0" and "cmd_pos (cmd m slot) = 0" and "cmd_len (cmd m slot) = 0"
    and "sysex_used (sysex m slot) = 0"
  shows "\<exists>m' buf.
     feed (on_slot slot [0xF0, 0x41, 0x10, 0x00, 0x04, 0x00, 0xF7]) m = Some m' \<and>
     backend_calls m' = backend_calls m @ [EvPlaySysex buf] \<and>
     buf = [0xF0, 0x41, 0x10, 0x00, 0x04, 0x00, 0xF7] \<and>
     length buf = 7 \<and> last buf = 0xF7"
proof -
  from assms(2) obtain h where "handler m = Some h" by blast
  with assms show ?thesis
    by (simp add: on_slot_def MIDI_RawOutByte_def parse_defs evtF0 evtF7 short_mt32_def
          backend_calls_def Let_def upt_rec MIDI_SYSEX_SIZE_def)
qed


theorem sysex_dispatch_witness:
  "\<exists>m'. feed (on_slot 0 [0xF0, 0x41, 0x10, 0x00, 0x04, 0x00, 0xF7]) paced_world = Some m' \<and>
     backend_calls m' = [EvPlaySysex [0xF0, 0x41, 0x10, 0x00, 0x04, 0x00, 0xF7]]"
proof -
  have "\<exists>m' buf.
     feed (on_slot 0 [0xF0, 0x41, 0x10, 0x00, 0x04, 0x00, 0xF7]) paced_world = Some m' \<and>
     backend_calls m' = backend_calls paced_world @ [EvPlaySysex buf] \<and>
     buf = [0xF0, 0x41, 0x10, 0x00, 0x04, 0x00, 0xF7] \<and>
     length buf = 7 \<and> last buf = 0xF7"
    by (rule sysex_dispatch)
       (simp_all add: paced_world_def none_world_def zero_world_def upd_sysex_def MIDI_DEVS_def)
  moreover have "backend_calls paced_world = []"
    by (simp add: backend_calls_def paced_world_def none_world_def zero_world_def upd_sysex_def)
  ultimately show ?thesis by auto
qed

lemma delay_in_ms_div: "delay_in_ms n = int (2 * n div 5) + 2"
proof -
  have "real n * 1.25 / 3.125 = real (2 * n) / real 5"
    by simp
  then have "\<lfloor>real n * 1.25 / 3.125\<rfloor> = \<lfloor>real (2 * n) / real 5\<rfloor>"
    by (rule arg_cong)
  also have "\<dots> = int (2 * n div 5)"
    by (rule floor_divide_of_nat_eq)
  finally show ?thesis
    by (simp add: delay_in_ms_def Let_def)
qed

subsection \<open>Stage lemmas\<close>

lemma latch_status_frame [simp]:
  "trace (latch_status d s m) = trace m"
  "handler (latch_status d s m) = handler m"
  "capture_midi (latch_status d s m) = capture_midi m"
  "sysex_delay (sysex (latch_status d s m) s') = sysex_delay (sysex m s')"
  "sysex_start (sysex (latch_status d s m) s') = sysex_start (sysex m s')"
  by (simp_all add: latch_status_def upd_cmd_def upd_sysex_def Let_def)

lemma latch_status_high:
  assumes "d AND 0x80 \<noteq> 0"
  shows "status (latch_status d s m) s = unat d"
    and "cmd_len (cmd (latch_status d s m) s) = MIDI_evt_len d"
    and "cmd_pos (cmd (latch_status d s m) s) = 0"
    and "cmd_buf (cmd (latch_status d s m) s) = cmd_buf (cmd m s)"
  using assms by (simp_all add: latch_status_def upd_cmd_def upd_sysex_def Let_def)

lemma cmd_collect_total:
  assumes "handler m \<noteq> None" and "cmd_pos (cmd m s) < 8"
  shows "\<exists>m'. cmd_collect d s m = Some m'"
proof -
  from assms(1) obtain h where "handler m = Some h" by blast
  with assms(2) show ?thesis
    by (simp add: cmd_collect_def upd_cmd_def PlayMsg_def emit_def Let_def)
qed

lemma cmd_collect_frame:
  assumes "cmd_collect d s m = Some m'"
  shows "sysex m' = sysex m" and "status m' = status m" and "handler m' = handler m"
    and "set (trace m) \<subseteq> set (trace m')"
  using assms
  by (auto simp add: cmd_collect_def upd_cmd_def PlayMsg_def emit_def Let_def
        split: if_splits option.splits)

lemma sysex_finish_sent:
  assumes "handler m \<noteq> None" and "sysex_used (sysex m slot) < MIDI_SYSEX_SIZE"
    and "fin = (sysex_buf (sysex m slot))(sysex_used (sysex m slot) := 0xf7)"
    and "L = sysex_used (sysex m slot) + 1"
    and "\<not> (sysex_start (sysex m slot) \<noteq> 0 \<and> 4 \<le> L \<and> L \<le> 9 \<and> fin 1 = 0x41 \<and> fin 3 = 0x16)"
  shows "\<exists>m'. sysex_finish slot m = Some m' \<and>
     handler m' = handler m \<and> status m' = status m \<and> cmd m' = cmd m \<and>
     EvPlaySysex (map fin [0..<L]) \<in> set (trace m') \<and>
     filter is_backend (trace m') = filter is_backend (trace m) @ [EvPlaySysex (map fin [0..<L])] \<and>
     sysex_buf (sysex m' slot) = fin \<and> sysex_used (sysex m' slot) = L \<and>
     sysex_delay (sysex m' slot) =
       (if sysex_start (sysex m slot) \<noteq> 0
        then pacing_delay ((sysex m slot)\<lparr>sysex_buf := fin, sysex_used := L\<rparr>)
        else sysex_delay (sysex m slot))"
proof -
  from assms(1) obtain h where "handler m = Some h" by blast
  with assms(2,5) assms(3,4) [symmetric] show ?thesis
    by (auto simp add: sysex_finish_def short_mt32_def rearm_pacing_def PlaySysex_def emit_def
          upd_sysex_def GetTicks_def Let_def)
qed

lemma sysex_finish_skipped:
  assumes "sysex_used (sysex m slot) < MIDI_SYSEX_SIZE"
    and "fin = (sysex_buf (sysex m slot))(sysex_used (sysex m slot) := 0xf7)"
    and "L = sysex_used (sysex m slot) + 1"
    and "sysex_start (sysex m slot) \<noteq> 0" and "4 \<le> L" and "L \<le> 9"
    and "fin 1 = 0x41" and "fin 3 = 0x16"
  shows "\<exists>m'. sysex_finish slot m = Some m' \<and>
     handler m' = handler m \<and> status m' = status m \<and> cmd m' = cmd m \<and>
     EvLog ''MIDI:Skipping invalid MT-32 SysEx midi message (too short to contain a checksum)'' \<in> set (trace m') \<and>
     filter is_backend (trace m') = filter is_backend (trace m) \<and>
     sysex_buf (sysex m' slot) = fin \<and> sysex_used (sysex m' slot) = L \<and>
     sysex_delay (sysex m' slot) = sysex_delay (sysex m slot) \<and>
     sysex_start (sysex m' slot) = sysex_start (sysex m slot)"
  using assms(1,4-) assms(2,3) [symmetric]
  by (simp add: sysex_finish_def short_mt32_def emit_def upd_sysex_def Let_def)


lemma RawOutByte_ends_sysex:
  assumes "slot < MIDI_DEVS" and "\<not> 0xf8 \<le> data" and "status m slot = 0xf0"
    and "data AND 0x80 \<noteq> 0"
  shows "MIDI_RawOutByte data slot m =
           sysex_finish slot (pacing_wait slot m) \<bind>
             (\<lambda>m1. cmd_collect data slot (latch_status data slot m1))"
  using assms by (simp add: MIDI_RawOutByte_def Let_def)

text \<open>
  The pacing delay is not the ceiling the specification names. With pacing armed, the
  seven-byte message of claim C5 is sent and leaves a delay of 4 ms, where
  \<open>\<lceil>7 \<times> 1.25 / 3.125\<rceil> + 2 = 5\<close>; and a six-byte message that the MT-32 check rejects
  leaves the delay as it was.
\<close>

theorem pacing_delay_not_ceiling:
  "map_option backend_calls
     (feed (on_slot 0 [0xF0, 0x41, 0x10, 0x00, 0x04, 0x00, 0xF7]) paced_world)
     = Some [EvPlaySysex [0xF0, 0x41, 0x10, 0x00, 0x04, 0x00, 0xF7]] \<and>
   map_option (sysex_used \<circ> sysex_of_slot 0)
     (feed (on_slot 0 [0xF0, 0x41, 0x10, 0x00, 0x04, 0x00, 0xF7]) paced_world) = Some 7 \<and>
   map_option (sysex_delay \<circ> sysex_of_slot 0)
     (feed (on_slot 0 [0xF0, 0x41, 0x10, 0x00, 0x04, 0x00, 0xF7]) paced_world) = Some 4 \<and>
   spec_delay_in_ms 7 = 5 \<and>
   map_option backend_calls
     (feed (on_slot 0 [0xF0, 0x41, 0x10, 0x16, 0x12, 0xF7]) paced_world) = Some [] \<and>
   map_option (sysex_used \<circ> sysex_of_slot 0)
     (feed (on_slot 0 [0xF0, 0x41, 0x10, 0x16, 0x12, 0xF7]) paced_world) = Some 6 \<and>
   map_option (sysex_delay \<circ> sysex_of_slot 0)
     (feed (on_slot 0 [0xF0, 0x41, 0x10, 0x16, 0x12, 0xF7]) paced_world) = Some 0 \<and>
   spec_delay_in_ms 6 = 5"
proof -
  have s7: "spec_delay_in_ms 7 = 5" and s6: "spec_delay_in_ms 6 = 5"
    by (simp_all add: spec_delay_in_ms_def)
  show ?thesis
    by (simp add: s7 s6 delay_in_ms_div on_slot_def MIDI_RawOutByte_def pacing_wait_def
          GetTicksSince_def parse_defs evtF0 evtF7 short_mt32_def pacing_delay_def
          backend_calls_def sysex_of_slot_def Let_def upt_rec MIDI_SYSEX_SIZE_def MIDI_DEVS_def
          paced_world_def none_world_def zero_world_def)
qed

text \<open>
  Claim C6, amended. When pacing is armed for the slot and a status byte ends a sysex
  transfer whose finalized buffer of length \<open>L\<close> is sent (it is not rejected as a short
  MT-32 message) and matches none of the three device signatures, the stored delay is
  \<open>\<lfloor>L \<times> 1.25 / 3.125\<rfloor> + 2\<close> milliseconds, that is \<open>2L div 5 + 2\<close>: the quotient is
  truncated, not rounded up.
\<close>

theorem pacing_delay_stored:
  assumes "slot < MIDI_DEVS" and "handler m \<noteq> None"
    and "status m slot = 0xf0" and "data AND 0x80 \<noteq> 0" and "\<not> 0xf8 \<le> data"
    and "sysex_used (sysex m slot) < MIDI_SYSEX_SIZE"
    and "sysex_start (sysex m slot) \<noteq> 0"
    and "fin = (sysex_buf (sysex m slot))(sysex_used (sysex m slot) := 0xf7)"
    and "L = sysex_used (sysex m slot) + 1"
    and "\<not> (4 \<le> L \<and> L \<le> 9 \<and> fin 1 = 0x41 \<and> fin 3 = 0x16)"
    and "fin 5 \<noteq> 0x7F"
    and "\<not> (fin 5 = 0x10 \<and> fin 6 = 0x00 \<and> fin 7 = 0x04)"
    and "\<not> (fin 5 = 0x10 \<and> fin 6 = 0x00 \<and> fin 7 = 0x01)"
  shows "\<exists>m'. MIDI_RawOutByte data slot m = Some m' \<and>
     EvPlaySysex (map fin [0..<L]) \<in> set (trace m') \<and>
     sysex_delay (sysex m' slot) = \<lfloor>real L * 1.25 / 3.125\<rfloor> + 2 \<and>
     sysex_delay (sysex m' slot) = int (2 * L div 5) + 2"
proof -
  let ?m0 = "pacing_wait slot m"
  have fl: "\<lfloor>real L * 1.25 / 3.125\<rfloor> + 2 = delay_in_ms L"
    by (simp add: delay_in_ms_def Let_def)
  have "\<exists>m1. sysex_finish slot ?m0 = Some m1 \<and>
     handler m1 = handler ?m0 \<and> status m1 = status ?m0 \<and> cmd m1 = cmd ?m0 \<and>
     EvPlaySysex (map fin [0..<L]) \<in> set (trace m1) \<and>
     filter is_backend (trace m1) = filter is_backend (trace ?m0) @ [EvPlaySysex (map fin [0..<L])] \<and>
     sysex_buf (sysex m1 slot) = fin \<and> sysex_used (sysex m1 slot) = L \<and>
     sysex_delay (sysex m1 slot) =
       (if sysex_start (sysex ?m0 slot) \<noteq> 0
        then pacing_delay ((sysex ?m0 slot)\<lparr>sysex_buf := fin, sysex_used := L\<rparr>)
        else sysex_delay (sysex ?m0 slot))"
    by (rule sysex_finish_sent) (use assms in simp_all)
  then obtain m1 where fin1: "sysex_finish slot ?m0 = Some m1"
    and h1: "handler m1 = handler m"
    and sent: "EvPlaySysex (map fin [0..<L]) \<in> set (trace m1)"
    and d1: "sysex_delay (sysex m1 slot) =
               pacing_delay ((sysex m slot)\<lparr>sysex_buf := fin, sysex_used := L\<rparr>)"
    using assms(7) by auto
  have d1': "sysex_delay (sysex m1 slot) = delay_in_ms L"
    unfolding d1 using assms(11-13) by (auto simp add: pacing_delay_def)
  let ?m2 = "latch_status data slot m1"
  have "\<exists>m3. cmd_collect data slot ?m2 = Some m3"
    by (rule cmd_collect_total) (use assms(2,4) h1 in \<open>simp_all add: latch_status_high\<close>)
  then obtain m3 where c3: "cmd_collect data slot ?m2 = Some m3" ..
  from cmd_collect_frame [OF c3] have "sysex m3 = sysex ?m2" and tr: "set (trace ?m2) \<subseteq> set (trace m3)"
    by simp_all
  then have "sysex_delay (sysex m3 slot) = delay_in_ms L"
    by (simp add: d1')
  moreover have "EvPlaySysex (map fin [0..<L]) \<in> set (trace m3)"
    using tr sent by auto
  moreover have "MIDI_RawOutByte data slot m = Some m3"
    using assms(1,3,4,5) by (simp add: RawOutByte_ends_sysex fin1 c3)
  ultimately show ?thesis
    unfolding fl by (simp add: delay_in_ms_div)
qed

lemma upt_0_7: "[0..<7] = [0, 1, 2, 3, 4, 5, 6]"
  by (simp add: upt_rec)

theorem pacing_delay_stored_witness:
  "\<exists>m6 m'. feed (on_slot 0 [0xF0, 0x41, 0x10, 0x00, 0x04, 0x00]) paced_world = Some m6 \<and>
     MIDI_RawOutByte 0xF7 0 m6 = Some m' \<and>
     EvPlaySysex [0xF0, 0x41, 0x10, 0x00, 0x04, 0x00, 0xF7] \<in> set (trace m') \<and>
     sysex_delay (sysex m' 0) = 4"
proof -
  have "\<exists>m6. feed (on_slot 0 [0xF0, 0x41, 0x10, 0x00, 0x04, 0x00]) paced_world = Some m6 \<and>
      handler m6 \<noteq> None \<and> status m6 0 = 0xf0 \<and> sysex_used (sysex m6 0) = 6 \<and>
      sysex_start (sysex m6 0) \<noteq> 0 \<and>
      sysex_buf (sysex m6 0) 0 = 0xF0 \<and> sysex_buf (sysex m6 0) 1 = 0x41 \<and>
      sysex_buf (sysex m6 0) 2 = 0x10 \<and> sysex_buf (sysex m6 0) 3 = 0x00 \<and>
      sysex_buf (sysex m6 0) 4 = 0x04 \<and> sysex_buf (sysex m6 0) 5 = 0x00 \<and>
      sysex_buf (sysex m6 0) 7 = 0x00"
    by (simp add: on_slot_def MIDI_RawOutByte_def pacing_wait_def GetTicksSince_def parse_defs
          evtF0 Let_def MIDI_SYSEX_SIZE_def MIDI_DEVS_def paced_world_def none_world_def
          zero_world_def)
  then obtain m6 where f: "feed (on_slot 0 [0xF0, 0x41, 0x10, 0x00, 0x04, 0x00]) paced_world = Some m6"
    and h: "handler m6 \<noteq> None" and st: "status m6 0 = 0xf0"
    and u: "sysex_used (sysex m6 0) = 6" and a: "sysex_start (sysex m6 0) \<noteq> 0"
    and b: "sysex_buf (sysex m6 0) 0 = 0xF0" "sysex_buf (sysex m6 0) 1 = 0x41"
      "sysex_buf (sysex m6 0) 2 = 0x10" "sysex_buf (sysex m6 0) 3 = 0x00"
      "sysex_buf (sysex m6 0) 4 = 0x04" "sysex_buf (sysex m6 0) 5 = 0x00"
      "sysex_buf (sysex m6 0) 7 = 0x00"
    by blast
  define fin :: "nat \<Rightarrow> u8"
    where "fin = (sysex_buf (sysex m6 0))(6 := 0xF7)"
  have "\<exists>m'. MIDI_RawOutByte 0xF7 0 m6 = Some m' \<and>
     EvPlaySysex (map fin [0..<7]) \<in> set (trace m') \<and>
     sysex_delay (sysex m' 0) = \<lfloor>real 7 * 1.25 / 3.125\<rfloor> + 2 \<and>
     sysex_delay (sysex m' 0) = int (2 * 7 div 5) + 2"
    by (rule pacing_delay_stored [where m = m6 and slot = 0 and data = "0xF7"])
       (use h st u a b in \<open>simp_all add: fin_def MIDI_DEVS_def MIDI_SYSEX_SIZE_def\<close>)
  moreover have "map fin [0..<7] = [0xF0, 0x41, 0x10, 0x00, 0x04, 0x00, 0xF7]"
    using b by (simp add: fin_def upt_0_7)
  ultimately show ?thesis using f by auto
qed

text \<open>
  Without pacing a short MT-32 message is sent like any other sysex message.
\<close>

theorem short_mt32_sent_without_pacing:
  "map_option backend_calls (feed (on_slot 0 [0xF0, 0x41, 0x10, 0x16, 0xF7]) none_world)
     = Some [EvPlaySysex [0xF0, 0x41, 0x10, 0x16, 0xF7]]"
  by (simp add: on_slot_def MIDI_RawOutByte_def pacing_wait_def GetTicksSince_def
        parse_defs evtF0 evtF7 short_mt32_def pacing_delay_def
        backend_calls_def Let_def upt_rec MIDI_SYSEX_SIZE_def MIDI_DEVS_def
        none_world_def zero_world_def)

text \<open>
  Claim C7, amended. When pacing is armed for the slot (\<open>sysex.start \<noteq> 0\<close>) and a status
  byte ends a sysex transfer whose finalized buffer is an MT-32 message too short for a
  checksum (length 4 to 9, \<open>buf[1] = 0x41\<close>, \<open>buf[3] = 0x16\<close>), the buffer is logged and
  not sent: no \<^verbatim>\<open>PlaySysex\<close> call is made, and the parser goes on with the ending byte
  as the new status.
\<close>

theorem short_mt32_skipped_when_paced:
  assumes "slot < MIDI_DEVS" and "handler m \<noteq> None"
    and "status m slot = 0xf0" and "data AND 0x80 \<noteq> 0" and "\<not> 0xf8 \<le> data"
    and "sysex_start (sysex m slot) \<noteq> 0"
    and "fin = (sysex_buf (sysex m slot))(sysex_used (sysex m slot) := 0xf7)"
    and "L = sysex_used (sysex m slot) + 1"
    and "4 \<le> L" and "L \<le> 9" and "fin 1 = 0x41" and "fin 3 = 0x16"
  shows "\<exists>m'. MIDI_RawOutByte data slot m = Some m' \<and>
     EvLog ''MIDI:Skipping invalid MT-32 SysEx midi message (too short to contain a checksum)''
       \<in> set (trace m') \<and>
     backend_calls m' = backend_calls m @
       (if MIDI_evt_len data = 1
        then [EvPlayMsg (map ((cmd_buf (cmd m slot))(0 := data)) [0..<8])] else []) \<and>
     status m' slot = unat data \<and>
     cmd_len (cmd m' slot) = MIDI_evt_len data \<and>
     cmd_pos (cmd m' slot) = (if MIDI_evt_len data = 0 then 0 else 1)"
proof -
  let ?m0 = "pacing_wait slot m"
  from assms(2) obtain h where h: "handler m = Some h" by blast
  have used: "sysex_used (sysex m slot) < MIDI_SYSEX_SIZE"
    using assms(8,10) by (simp add: MIDI_SYSEX_SIZE_def)
  have "\<exists>m1. sysex_finish slot ?m0 = Some m1 \<and>
     handler m1 = handler ?m0 \<and> status m1 = status ?m0 \<and> cmd m1 = cmd ?m0 \<and>
     EvLog ''MIDI:Skipping invalid MT-32 SysEx midi message (too short to contain a checksum)'' \<in> set (trace m1) \<and>
     filter is_backend (trace m1) = filter is_backend (trace ?m0) \<and>
     sysex_buf (sysex m1 slot) = fin \<and> sysex_used (sysex m1 slot) = L \<and>
     sysex_delay (sysex m1 slot) = sysex_delay (sysex ?m0 slot) \<and>
     sysex_start (sysex m1 slot) = sysex_start (sysex ?m0 slot)"
    by (rule sysex_finish_skipped) (use assms used in simp_all)
  then obtain m1 where fin1: "sysex_finish slot ?m0 = Some m1"
    and h1: "handler m1 = Some h" and c1: "cmd m1 = cmd m"
    and lg: "EvLog ''MIDI:Skipping invalid MT-32 SysEx midi message (too short to contain a checksum)'' \<in> set (trace m1)"
    and b1: "filter is_backend (trace m1) = filter is_backend (trace m)"
    using h by auto
  let ?m2 = "latch_status data slot m1"
  have l2: "status ?m2 slot = unat data" "cmd_len (cmd ?m2 slot) = MIDI_evt_len data"
    "cmd_pos (cmd ?m2 slot) = 0" "cmd_buf (cmd ?m2 slot) = cmd_buf (cmd m slot)"
    using assms(4) by (simp_all add: latch_status_high c1)
  have "\<exists>m3. cmd_collect data slot ?m2 = Some m3 \<and>
      filter is_backend (trace m3) = filter is_backend (trace m) @
        (if MIDI_evt_len data = 1
         then [EvPlayMsg (map ((cmd_buf (cmd m slot))(0 := data)) [0..<8])] else []) \<and>
      status m3 slot = unat data \<and> cmd_len (cmd m3 slot) = MIDI_evt_len data \<and>
      cmd_pos (cmd m3 slot) = (if MIDI_evt_len data = 0 then 0 else 1) \<and>
      set (trace m1) \<subseteq> set (trace m3)"
    using l2 h1 b1
    by (auto simp add: cmd_collect_def upd_cmd_def PlayMsg_def emit_def Let_def)
  then obtain m3 where c3: "cmd_collect data slot ?m2 = Some m3"
    and r: "filter is_backend (trace m3) = filter is_backend (trace m) @
        (if MIDI_evt_len data = 1
         then [EvPlayMsg (map ((cmd_buf (cmd m slot))(0 := data)) [0..<8])] else [])"
      "status m3 slot = unat data" "cmd_len (cmd m3 slot) = MIDI_evt_len data"
      "cmd_pos (cmd m3 slot) = (if MIDI_evt_len data = 0 then 0 else 1)"
    and tr: "set (trace m1) \<subseteq> set (trace m3)"
    by blast
  have "MIDI_RawOutByte data slot m = Some m3"
    using assms(1,3,4,5) by (simp add: RawOutByte_ends_sysex fin1 c3)
  moreover have "EvLog ''MIDI:Skipping invalid MT-32 SysEx midi message (too short to contain a checksum)''
       \<in> set (trace m3)"
    using tr lg by blast
  ultimately show ?thesis
    using r by (simp add: backend_calls_def)
qed

theorem short_mt32_skipped_when_paced_witness:
  "\<exists>m4 m'. feed (on_slot 0 [0xF0, 0x41, 0x10, 0x16]) paced_world = Some m4 \<and>
     MIDI_RawOutByte 0xF7 0 m4 = Some m' \<and>
     backend_calls m' = [] \<and> status m' 0 = 0xF7 \<and> cmd_len (cmd m' 0) = 0 \<and> cmd_pos (cmd m' 0) = 0"
proof -
  have "\<exists>m4. feed (on_slot 0 [0xF0, 0x41, 0x10, 0x16]) paced_world = Some m4 \<and>
      handler m4 \<noteq> None \<and> status m4 0 = 0xf0 \<and> sysex_used (sysex m4 0) = 4 \<and>
      sysex_start (sysex m4 0) \<noteq> 0 \<and> backend_calls m4 = [] \<and>
      sysex_buf (sysex m4 0) 1 = 0x41 \<and> sysex_buf (sysex m4 0) 3 = 0x16"
    by (simp add: on_slot_def MIDI_RawOutByte_def pacing_wait_def GetTicksSince_def parse_defs
          evtF0 Let_def MIDI_SYSEX_SIZE_def MIDI_DEVS_def paced_world_def none_world_def
          zero_world_def backend_calls_def)
  then obtain m4 where f: "feed (on_slot 0 [0xF0, 0x41, 0x10, 0x16]) paced_world = Some m4"
    and h: "handler m4 \<noteq> None" and st: "status m4 0 = 0xf0"
    and u: "sysex_used (sysex m4 0) = 4" and a: "sysex_start (sysex m4 0) \<noteq> 0"
    and bc: "backend_calls m4 = []"
    and b: "sysex_buf (sysex m4 0) 1 = 0x41" "sysex_buf (sysex m4 0) 3 = 0x16"
    by blast
  define fin :: "nat \<Rightarrow> u8"
    where "fin = (sysex_buf (sysex m4 0))(4 := 0xF7)"
  have "\<exists>m'. MIDI_RawOutByte 0xF7 0 m4 = Some m' \<and>
     EvLog ''MIDI:Skipping invalid MT-32 SysEx midi message (too short to contain a checksum)''
       \<in> set (trace m') \<and>
     backend_calls m' = backend_calls m4 @
       (if MIDI_evt_len 0xF7 = 1
        then [EvPlayMsg (map ((cmd_buf (cmd m4 0))(0 := 0xF7)) [0..<8])] else []) \<and>
     status m' 0 = unat (0xF7 :: u8) \<and>
     cmd_len (cmd m' 0) = MIDI_evt_len 0xF7 \<and>
     cmd_pos (cmd m' 0) = (if MIDI_evt_len 0xF7 = 0 then 0 else 1)"
    by (rule short_mt32_skipped_when_paced [where m = m4 and slot = 0 and fin = fin and L = 5])
       (use h st u a b in \<open>simp_all add: fin_def MIDI_DEVS_def\<close>)
  then show ?thesis using f bc by (auto simp add: evtF7)
qed

lemma MIDI_evt_len_le: "MIDI_evt_len d \<le> 3"
proof -
  have "\<forall>x \<in> set MIDI_evt_len_table. x \<le> 3"
    by (simp add: MIDI_evt_len_table_def)
  moreover have "unat d < length MIDI_evt_len_table"
    using unsigned_less [of d, where ?'a = nat] by (simp add: MIDI_evt_len_table_length)
  ultimately show ?thesis
    unfolding MIDI_evt_len_def by (meson nth_mem)
qed

lemma latch_status_other:
  assumes "s' \<noteq> s"
  shows "status (latch_status d s m) s' = status m s'"
    and "cmd (latch_status d s m) s' = cmd m s'"
    and "sysex (latch_status d s m) s' = sysex m s'"
  using assms by (simp_all add: latch_status_def upd_cmd_def upd_sysex_def Let_def)

lemma latch_status_low: "d AND 0x80 = 0 \<Longrightarrow> latch_status d s m = m"
  by (simp add: latch_status_def)

lemma latch_status_used:
  assumes "d AND 0x80 \<noteq> 0"
  shows "sysex_used (sysex (latch_status d s m) s) =
           (if unat d = 0xf0 then 1 else sysex_used (sysex m s))"
  using assms by (simp add: latch_status_def upd_cmd_def upd_sysex_def Let_def)

lemma cmd_collect_cmd:
  assumes "cmd_collect d s m = Some m'" and "cmd_len (cmd m s) \<le> 8"
  shows "cmd_len (cmd m' s') = cmd_len (cmd m s')"
    and "s' \<noteq> s \<Longrightarrow> cmd m' s' = cmd m s'"
    and "cmd_pos (cmd m' s) < 8 \<or> cmd_pos (cmd m' s) = cmd_pos (cmd m s)"
  using assms
  by (auto simp add: cmd_collect_def upd_cmd_def PlayMsg_def emit_def Let_def
        split: if_splits option.splits)

lemma sysex_finish_shape:
  assumes "handler m \<noteq> None" and "sysex_used (sysex m slot) < MIDI_SYSEX_SIZE"
  shows "\<exists>m'. sysex_finish slot m = Some m' \<and> handler m' = handler m \<and>
     status m' = status m \<and> cmd m' = cmd m \<and>
     sysex_used (sysex m' slot) = sysex_used (sysex m slot) + 1 \<and>
     (\<forall>s. s \<noteq> slot \<longrightarrow> sysex m' s = sysex m s)"
proof -
  from assms(1) obtain h where "handler m = Some h" by blast
  with assms(2) show ?thesis
    by (simp add: sysex_finish_def rearm_pacing_def PlaySysex_def emit_def
          upd_sysex_def Let_def)
qed

lemma sysex_append_inv:
  assumes "midi_inv m" and "status m slot = 0xf0"
  shows "midi_inv (sysex_append d slot m)"
  using assms
  by (auto simp add: midi_inv_def sysex_append_def upd_sysex_def MIDI_SYSEX_SIZE_def)

lemma pacing_wait_inv: "midi_inv (pacing_wait slot m) = midi_inv m"
  by (simp add: midi_inv_def)

lemma tail_inv:
  assumes h: "handler m1 \<noteq> None" and s: "slot < MIDI_DEVS"
    and all: "\<forall>s < MIDI_DEVS. sysex_used (sysex m1 s) \<le> MIDI_SYSEX_SIZE \<and>
        cmd_len (cmd m1 s) \<le> 8 \<and> cmd_pos (cmd m1 s) < 8"
    and others: "\<forall>s < MIDI_DEVS. s \<noteq> slot \<longrightarrow> status m1 s = 0xf0 \<longrightarrow>
        sysex_used (sysex m1 s) < MIDI_SYSEX_SIZE"
    and own: "d AND 0x80 = 0 \<longrightarrow> status m1 slot = 0xf0 \<longrightarrow>
        sysex_used (sysex m1 slot) < MIDI_SYSEX_SIZE"
  shows "\<exists>m'. cmd_collect d slot (latch_status d slot m1) = Some m' \<and> midi_inv m'"
proof -
  let ?m2 = "latch_status d slot m1"
  have inv2: "midi_inv ?m2"
  proof (cases "d AND 0x80 = 0")
    case True
    with h all others own show ?thesis
      by (auto simp add: latch_status_low midi_inv_def)
  next
    case False
    have "sysex_used (sysex ?m2 t) \<le> MIDI_SYSEX_SIZE \<and>
        (status ?m2 t = 0xf0 \<longrightarrow> sysex_used (sysex ?m2 t) < MIDI_SYSEX_SIZE) \<and>
        cmd_len (cmd ?m2 t) \<le> 8 \<and> cmd_pos (cmd ?m2 t) < 8" if t: "t < MIDI_DEVS" for t
    proof (cases "t = slot")
      case True
      have "MIDI_evt_len d \<le> 8" using MIDI_evt_len_le [of d] by simp
      with True False all s show ?thesis
        by (simp add: latch_status_high latch_status_used MIDI_SYSEX_SIZE_def)
    next
      case False
      with all others t show ?thesis
        by (simp add: latch_status_other)
    qed
    with h show ?thesis by (simp add: midi_inv_def)
  qed
  then have "\<exists>m3. cmd_collect d slot ?m2 = Some m3"
    using s by (intro cmd_collect_total) (simp_all add: midi_inv_def)
  then obtain m3 where c: "cmd_collect d slot ?m2 = Some m3" ..
  have len: "cmd_len (cmd ?m2 slot) \<le> 8"
    using inv2 s by (simp add: midi_inv_def)
  have "midi_inv m3"
    unfolding midi_inv_def
  proof (intro conjI allI impI)
    show "handler m3 \<noteq> None"
      using cmd_collect_frame(3) [OF c] inv2 by (simp add: midi_inv_def)
  next
    fix t assume t: "t < MIDI_DEVS"
    from inv2 t have i: "sysex_used (sysex ?m2 t) \<le> MIDI_SYSEX_SIZE"
      "status ?m2 t = 0xf0 \<longrightarrow> sysex_used (sysex ?m2 t) < MIDI_SYSEX_SIZE"
      "cmd_len (cmd ?m2 t) \<le> 8" "cmd_pos (cmd ?m2 t) < 8"
      by (simp_all add: midi_inv_def)
    show "sysex_used (sysex m3 t) \<le> MIDI_SYSEX_SIZE"
      using cmd_collect_frame(1) [OF c] i(1) by simp
    show "sysex_used (sysex m3 t) < MIDI_SYSEX_SIZE" if "status m3 t = 0xf0"
      using cmd_collect_frame(1,2) [OF c] i(2) that by simp
    show "cmd_len (cmd m3 t) \<le> 8"
      using cmd_collect_cmd(1) [OF c len] i(3) by simp
    show "cmd_pos (cmd m3 t) < 8"
    proof (cases "t = slot")
      case True
      with cmd_collect_cmd(3) [OF c len] i(4) show ?thesis by auto
    next
      case False
      with cmd_collect_cmd(2) [OF c len] i(4) show ?thesis by simp
    qed
  qed
  with c show ?thesis by blast
qed

lemma RawOutByte_inv:
  assumes inv: "midi_inv m" and s: "slot < MIDI_DEVS"
  shows "\<exists>m'. MIDI_RawOutByte d slot m = Some m' \<and> midi_inv m'"
proof -
  let ?m0 = "pacing_wait slot m"
  have inv0: "midi_inv ?m0" using inv by (simp add: pacing_wait_inv)
  then have h0: "handler ?m0 \<noteq> None"
    and all0: "\<forall>s < MIDI_DEVS. sysex_used (sysex ?m0 s) \<le> MIDI_SYSEX_SIZE \<and>
        cmd_len (cmd ?m0 s) \<le> 8 \<and> cmd_pos (cmd ?m0 s) < 8"
    and f0: "\<forall>s < MIDI_DEVS. status ?m0 s = 0xf0 \<longrightarrow> sysex_used (sysex ?m0 s) < MIDI_SYSEX_SIZE"
    unfolding midi_inv_def by blast+
  consider (rt) "0xf8 \<le> d"
    | (data) "\<not> 0xf8 \<le> d" "status m slot = 0xf0" "d AND 0x80 = 0"
    | (fin) "\<not> 0xf8 \<le> d" "status m slot = 0xf0" "d AND 0x80 \<noteq> 0"
    | (plain) "\<not> 0xf8 \<le> d" "status m slot \<noteq> 0xf0"
    by blast
  then show ?thesis
  proof cases
    case rt
    from h0 obtain h where "handler ?m0 = Some h" by blast
    with rt s inv0 show ?thesis
      by (simp add: MIDI_RawOutByte_def realtime_out_def PlayMsg_def emit_def Let_def
            midi_inv_def)
  next
    case data
    with s have "MIDI_RawOutByte d slot m = Some (sysex_append d slot ?m0)"
      by (simp add: MIDI_RawOutByte_def Let_def)
    moreover have "midi_inv (sysex_append d slot ?m0)"
      using inv0 data(2) by (intro sysex_append_inv) simp_all
    ultimately show ?thesis by simp
  next
    case fin
    have "sysex_used (sysex ?m0 slot) < MIDI_SYSEX_SIZE"
      using f0 s fin(2) by simp
    from sysex_finish_shape [OF h0 this] obtain m1 where
      f: "sysex_finish slot ?m0 = Some m1" and h1: "handler m1 = handler ?m0"
      and st: "status m1 = status ?m0" and c1: "cmd m1 = cmd ?m0"
      and u1: "sysex_used (sysex m1 slot) = sysex_used (sysex ?m0 slot) + 1"
      and o1: "\<forall>s. s \<noteq> slot \<longrightarrow> sysex m1 s = sysex ?m0 s"
      by blast
    have "\<exists>m'. cmd_collect d slot (latch_status d slot m1) = Some m' \<and> midi_inv m'"
    proof (rule tail_inv [OF _ s])
      show "handler m1 \<noteq> None" using h1 h0 by simp
      show "\<forall>t < MIDI_DEVS. sysex_used (sysex m1 t) \<le> MIDI_SYSEX_SIZE \<and>
          cmd_len (cmd m1 t) \<le> 8 \<and> cmd_pos (cmd m1 t) < 8"
      proof (intro allI impI)
        fix t assume t: "t < MIDI_DEVS"
        show "sysex_used (sysex m1 t) \<le> MIDI_SYSEX_SIZE \<and>
          cmd_len (cmd m1 t) \<le> 8 \<and> cmd_pos (cmd m1 t) < 8"
        proof (cases "t = slot")
          case True
          with all0 f0 s fin(2) u1 c1 show ?thesis by auto
        next
          case False
          with all0 t o1 c1 show ?thesis by simp
        qed
      qed
      show "\<forall>t < MIDI_DEVS. t \<noteq> slot \<longrightarrow> status m1 t = 0xf0 \<longrightarrow>
          sysex_used (sysex m1 t) < MIDI_SYSEX_SIZE"
        using f0 o1 st by simp
      show "d AND 0x80 = 0 \<longrightarrow> status m1 slot = 0xf0 \<longrightarrow>
          sysex_used (sysex m1 slot) < MIDI_SYSEX_SIZE"
        using fin(3) by simp
    qed
    moreover have "MIDI_RawOutByte d slot m =
        cmd_collect d slot (latch_status d slot m1)"
      using s fin f by (simp add: RawOutByte_ends_sysex)
    ultimately show ?thesis by simp
  next
    case plain
    have "\<exists>m'. cmd_collect d slot (latch_status d slot ?m0) = Some m' \<and> midi_inv m'"
      using h0 s all0 f0 plain(2) by (intro tail_inv) simp_all
    moreover have "MIDI_RawOutByte d slot m =
        cmd_collect d slot (latch_status d slot ?m0)"
      using s plain by (simp add: MIDI_RawOutByte_def Let_def)
    ultimately show ?thesis by simp
  qed
qed

lemma feed_inv:
  assumes "midi_inv m" and "\<forall>c \<in> set calls. snd c < MIDI_DEVS"
  shows "\<exists>m'. feed calls m = Some m' \<and> midi_inv m'"
  using assms
proof (induction calls arbitrary: m)
  case Nil
  then show ?case by simp
next
  case (Cons c calls)
  obtain d slot where c: "c = (d, slot)" by (cases c)
  with Cons.prems have "slot < MIDI_DEVS" by simp
  from RawOutByte_inv [OF Cons.prems(1) this, of d] obtain m1 where
    "MIDI_RawOutByte d slot m = Some m1" "midi_inv m1" by blast
  moreover from Cons.IH [OF this(2)] Cons.prems(2)
  have "\<exists>m'. feed calls m1 = Some m' \<and> midi_inv m'" by simp
  ultimately show ?case by (simp add: c)
qed


text \<open>
  Claim C8. Take any session state in which a backend is selected, every slot's
  \<open>sysex.used\<close> is at most \<open>MIDI_SYSEX_SIZE\<close> and below it while the slot collects a
  sysex message, and the pending command lies inside its buffer; the state after start-up
  is one. Then every sequence of \<^verbatim>\<open>MIDI_RawOutByte\<close> calls on slots below
  \<open>MIDI_DEVS\<close> runs without a write outside a buffer, ends in such a state again, and
  leaves \<open>sysex.used \<le> MIDI_SYSEX_SIZE\<close> on every slot. A data byte of a sysex transfer
  is appended only while \<open>sysex.used < MIDI_SYSEX_SIZE - 1\<close>, which keeps the last place
  for the terminator, and is dropped otherwise.
\<close>

theorem sysex_buffer_bounds:
  assumes "midi_inv m" and "\<forall>c \<in> set calls. snd c < MIDI_DEVS"
  shows "(\<exists>m'. feed calls m = Some m' \<and> midi_inv m' \<and>
            (\<forall>slot < MIDI_DEVS. sysex_used (sysex m' slot) \<le> MIDI_SYSEX_SIZE)) \<and>
         (\<forall>d slot. slot < MIDI_DEVS \<and> status m slot = 0xf0 \<and> d AND 0x80 = 0 \<longrightarrow>
            (\<exists>m'. MIDI_RawOutByte d slot m = Some m' \<and>
               sysex m' slot =
                 (if sysex_used (sysex m slot) < MIDI_SYSEX_SIZE - 1
                  then (sysex m slot)
                         \<lparr>sysex_buf := (sysex_buf (sysex m slot))(sysex_used (sysex m slot) := d),
                          sysex_used := sysex_used (sysex m slot) + 1\<rparr>
                  else sysex m slot)))"
proof (intro conjI allI impI)
  from feed_inv [OF assms] obtain m' where "feed calls m = Some m'" and "midi_inv m'"
    by blast
  then show "\<exists>m'. feed calls m = Some m' \<and> midi_inv m' \<and>
            (\<forall>slot < MIDI_DEVS. sysex_used (sysex m' slot) \<le> MIDI_SYSEX_SIZE)"
    by (auto simp add: midi_inv_def)
next
  fix d :: u8 and slot :: nat
  assume a: "slot < MIDI_DEVS \<and> status m slot = 0xf0 \<and> d AND 0x80 = 0"
  then have "\<not> 0xf8 \<le> d" by (simp add: data_byte_not_realtime)
  with a have "MIDI_RawOutByte d slot m = Some (sysex_append d slot (pacing_wait slot m))"
    by (simp add: MIDI_RawOutByte_def Let_def)
  then show "\<exists>m'. MIDI_RawOutByte d slot m = Some m' \<and>
               sysex m' slot =
                 (if sysex_used (sysex m slot) < MIDI_SYSEX_SIZE - 1
                  then (sysex m slot)
                         \<lparr>sysex_buf := (sysex_buf (sysex m slot))(sysex_used (sysex m slot) := d),
                          sysex_used := sysex_used (sysex m slot) + 1\<rparr>
                  else sysex m slot)"
    by (simp add: sysex_append_def upd_sysex_def)
qed

theorem sysex_buffer_bounds_witness:
  "\<exists>m1 m2 m3. feed (on_slot 0 [0xF0]) none_world = Some m1 \<and>
     feed (on_slot 0 [0x41, 0xF7]) m1 = Some m2 \<and>
     sysex_used (sysex m2 0) \<le> MIDI_SYSEX_SIZE \<and>
     MIDI_RawOutByte 0x41 0 m1 = Some m3 \<and> sysex_used (sysex m3 0) = 2"
proof -
  have "\<exists>m1. feed (on_slot 0 [0xF0]) none_world = Some m1 \<and> midi_inv m1 \<and>
      status m1 0 = 0xf0 \<and> sysex_used (sysex m1 0) = 1"
    by (simp add: on_slot_def MIDI_RawOutByte_def pacing_wait_def parse_defs evtF0 Let_def
          midi_inv_def MIDI_SYSEX_SIZE_def MIDI_DEVS_def none_world_def zero_world_def)
  then obtain m1 where f: "feed (on_slot 0 [0xF0]) none_world = Some m1"
    and i: "midi_inv m1" and st: "status m1 0 = 0xf0" and u: "sysex_used (sysex m1 0) = 1"
    by blast
  have c: "\<forall>c \<in> set (on_slot 0 [0x41, 0xF7]). snd c < MIDI_DEVS"
    by (simp add: on_slot_def MIDI_DEVS_def)
  have p: "(0::nat) < MIDI_DEVS \<and> status m1 0 = 0xf0 \<and> (0x41 :: u8) AND 0x80 = 0"
    using st by (simp add: MIDI_DEVS_def)
  note t = sysex_buffer_bounds [OF i c]
  from t [THEN conjunct1] obtain m2 where
    "feed (on_slot 0 [0x41, 0xF7]) m1 = Some m2"
    "\<forall>slot < MIDI_DEVS. sysex_used (sysex m2 slot) \<le> MIDI_SYSEX_SIZE"
    by blast
  then have m2: "feed (on_slot 0 [0x41, 0xF7]) m1 = Some m2"
    "sysex_used (sysex m2 0) \<le> MIDI_SYSEX_SIZE"
    by (simp_all add: MIDI_DEVS_def)
  from t [THEN conjunct2, rule_format, OF p] obtain m3 where
    "MIDI_RawOutByte 0x41 0 m1 = Some m3" "sysex_used (sysex m3 0) = 2"
    using u by (auto simp add: MIDI_SYSEX_SIZE_def)
  with f m2 show ?thesis by blast
qed

subsection \<open>Backend selection\<close>

lemma register_all_rev: "register_all hs = rev hs"
proof -
  have "foldl (\<lambda>handler_list h. MidiHandler_ctor h handler_list) acc hs = rev hs @ acc" for acc
    by (induction hs arbitrary: acc) (simp_all add: MidiHandler_ctor_def)
  then show ?thesis by (simp add: register_all_def)
qed

lemma find_app:
  "find P (xs @ ys) = (case find P xs of None \<Rightarrow> find P ys | Some x \<Rightarrow> Some x)"
  by (induction xs) simp_all

lemma getdefault_selects:
  assumes "find (\<lambda>h. GetName h \<noteq> ''fluidsynth'' \<and> GetName h \<noteq> ''mt32'' \<and> Open h conf) hl = Some h"
  shows "\<exists>m'. getdefault conf hl m = Some m' \<and> handler m' = Some h \<and> available m' \<and>
           realtime m' \<and> inputdev m' = MDEV_SBUART \<and> \<not> autoinput m' \<and>
           \<not> thruchan m' \<and> \<not> clockout m'"
  using assms
proof (induction hl arbitrary: m)
  case Nil
  then show ?case by simp
next
  case (Cons x hl)
  then show ?case
    by (auto simp add: Let_def emit_def split: if_splits)
qed

lemma getdefault_none:
  assumes "find (\<lambda>h. GetName h \<noteq> ''fluidsynth'' \<and> GetName h \<noteq> ''mt32'' \<and> Open h conf) hl = None"
  shows "getdefault conf hl m = None"
  using assms
  by (induction hl arbitrary: m) (auto simp add: Let_def split: if_splits)

lemma find_device_falls_back:
  assumes "find (\<lambda>h. GetName h = dev) hl = None \<or>
           (\<exists>h. find (\<lambda>h. GetName h = dev) hl = Some h \<and> \<not> Open h conf)"
  shows "\<exists>m1. find_device dev conf hl m = Inr m1"
  using assms
  by (induction hl arbitrary: m) (auto simp add: Let_def split: if_splits)

lemma find_device_opens:
  assumes "find (\<lambda>h. GetName h = dev) hl = Some h" and "Open h conf"
  shows "\<exists>m1. find_device dev conf hl m = Inl m1 \<and> handler m1 = Some h \<and> available m1 \<and>
           autoinput m1"
  using assms
  by (induction hl arbitrary: m) (auto simp add: Let_def emit_def split: if_splits)

text \<open>
  Claim C9. Let the handler list be the one the constructors build, with the no-op backend
  constructed first and therefore last in the list. When the device name is \<open>auto\<close> or
  \<open>default\<close>, or names no registered backend, or names one whose \<^verbatim>\<open>Open\<close> fails, the
  selection returns with a backend activated: the first one in list order that is named
  neither \<open>fluidsynth\<close> nor \<open>mt32\<close> and whose \<^verbatim>\<open>Open\<close> succeeds. If no other such
  backend opens, that is the no-op backend \<open>none\<close>, so the search always ends with a
  backend.
\<close>

theorem backend_selection_fallback:
  assumes "handler_list = register_all (Midi_none # others)"
    and "dev = ''auto'' \<or> dev = ''default'' \<or>
         find (\<lambda>h. GetName h = dev) handler_list = None \<or>
         (\<exists>h. find (\<lambda>h. GetName h = dev) handler_list = Some h \<and> \<not> Open h conf)"
  shows "\<exists>m' h. MIDI_select dev conf handler_list m = Some m' \<and>
           handler m' = Some h \<and> available m' \<and>
           find (\<lambda>h. GetName h \<noteq> ''fluidsynth'' \<and> GetName h \<noteq> ''mt32'' \<and> Open h conf)
             handler_list = Some h \<and>
           ((\<forall>x \<in> set others. GetName x = ''fluidsynth'' \<or> GetName x = ''mt32'' \<or> \<not> Open x conf)
              \<longrightarrow> h = Midi_none)"
proof -
  let ?ok = "\<lambda>h. GetName h \<noteq> ''fluidsynth'' \<and> GetName h \<noteq> ''mt32'' \<and> Open h conf"
  have hl: "handler_list = rev others @ [Midi_none]"
    using assms(1) by (simp add: register_all_rev)
  have ok_none: "?ok Midi_none"
    by (simp add: Midi_none_def)
  have "find ?ok handler_list \<noteq> None"
    unfolding hl using ok_none by (auto simp add: find_None_iff)
  then obtain h where h: "find ?ok handler_list = Some h" by blast
  have last: "h = Midi_none"
    if "\<forall>x \<in> set others. GetName x = ''fluidsynth'' \<or> GetName x = ''mt32'' \<or> \<not> Open x conf"
  proof -
    from that have "find ?ok (rev others) = None"
      by (auto simp add: find_None_iff)
    with h ok_none show ?thesis
      unfolding hl by (simp add: find_app)
  qed
  have sel: "\<exists>m'. getdefault conf handler_list m0 = Some m' \<and> handler m' = Some h \<and> available m'"
    for m0
    using getdefault_selects [OF h, of m0] by blast
  have "\<exists>m'. MIDI_select dev conf handler_list m = Some m' \<and> handler m' = Some h \<and> available m'"
  proof (cases "dev = ''auto'' \<or> dev = ''default''")
    case True
    then show ?thesis using sel [of m] by (simp add: MIDI_select_def)
  next
    case False
    with assms(2) have "find (\<lambda>h. GetName h = dev) handler_list = None \<or>
         (\<exists>h. find (\<lambda>h. GetName h = dev) handler_list = Some h \<and> \<not> Open h conf)"
      by blast
    from find_device_falls_back [OF this, of m] obtain m1 where
      "find_device dev conf handler_list m = Inr m1" ..
    with False sel [of m1] show ?thesis by (simp add: MIDI_select_def)
  qed
  with h last show ?thesis by blast
qed

theorem backend_selection_fallback_witness:
  "\<exists>m'. MIDI_select ''coremidi'' ''''
       (register_all [Midi_none,
          \<lparr>GetName = ''fluidsynth'', Open = (\<lambda>conf. True)\<rparr>,
          \<lparr>GetName = ''mt32'', Open = (\<lambda>conf. True)\<rparr>,
          \<lparr>GetName = ''coremidi'', Open = (\<lambda>conf. False)\<rparr>]) zero_world = Some m' \<and>
     handler m' = Some Midi_none \<and> available m'"
proof -
  let ?others = "[\<lparr>GetName = ''fluidsynth'', Open = (\<lambda>conf. True)\<rparr>,
          \<lparr>GetName = ''mt32'', Open = (\<lambda>conf. True)\<rparr>,
          \<lparr>GetName = ''coremidi'', Open = (\<lambda>conf::string. False)\<rparr>]"
  have a: "''coremidi'' = ''auto'' \<or> ''coremidi'' = ''default'' \<or>
         find (\<lambda>h. GetName h = ''coremidi'') (register_all (Midi_none # ?others)) = None \<or>
         (\<exists>h. find (\<lambda>h. GetName h = ''coremidi'') (register_all (Midi_none # ?others)) = Some h
            \<and> \<not> Open h '''')"
    by (simp add: register_all_def MidiHandler_ctor_def)
  have b: "\<forall>x \<in> set ?others. GetName x = ''fluidsynth'' \<or> GetName x = ''mt32'' \<or> \<not> Open x ''''"
    by simp
  from backend_selection_fallback [OF refl a, of zero_world] b
  show ?thesis by blast
qed

text \<open>
  Whatever backend the constructor selects, the session it leaves behind is one of the
  states of claim C8.
\<close>

lemma getdefault_frame:
  assumes "getdefault conf hl m = Some m'"
  shows "handler m' \<noteq> None \<and> status m' = status m \<and> cmd m' = cmd m \<and> sysex m' = sysex m"
  using assms
  by (induction hl arbitrary: m) (auto simp add: Let_def emit_def split: if_splits)

lemma find_device_frame:
  "(find_device dev conf hl m = Inl m' \<longrightarrow>
      handler m' \<noteq> None \<and> status m' = status m \<and> cmd m' = cmd m \<and> sysex m' = sysex m) \<and>
   (find_device dev conf hl m = Inr m' \<longrightarrow>
      status m' = status m \<and> cmd m' = cmd m \<and> sysex m' = sysex m)"
  by (induction hl arbitrary: m) (auto simp add: Let_def emit_def split: if_splits)

lemma midi_inv_after_select:
  assumes "MIDI_select dev conf hl zero_world = Some m"
  shows "midi_inv m"
proof -
  have z: "\<forall>slot. sysex_used (sysex zero_world slot) = 0 \<and> status zero_world slot = 0 \<and>
      cmd_len (cmd zero_world slot) = 0 \<and> cmd_pos (cmd zero_world slot) = 0"
    by (simp add: zero_world_def)
  have "handler m \<noteq> None \<and> status m = status zero_world \<and> cmd m = cmd zero_world \<and>
      sysex m = sysex zero_world"
  proof (cases "dev = ''auto'' \<or> dev = ''default''")
    case True
    with assms show ?thesis
      by (auto simp add: MIDI_select_def dest: getdefault_frame)
  next
    case False
    show ?thesis
    proof (cases "find_device dev conf hl zero_world")
      case (Inl m1)
      with False assms find_device_frame [of dev conf hl zero_world m] show ?thesis
        by (simp add: MIDI_select_def)
    next
      case (Inr m1)
      with False assms have "getdefault conf hl m1 = Some m"
        by (simp add: MIDI_select_def)
      from getdefault_frame [OF this] find_device_frame [of dev conf hl zero_world m1] Inr
      show ?thesis by simp
    qed
  qed
  with z show ?thesis
    by (simp add: midi_inv_def MIDI_SYSEX_SIZE_def)
qed

subsection \<open>Realtime bytes sent through \<^verbatim>\<open>MIDI_RawOutRTByte\<close>\<close>

text \<open>The two gates: nothing is sent with realtime disabled, nor a clock byte without clock passthrough.\<close>

lemma rt_gate_off: "\<not> realtime m \<Longrightarrow> MIDI_RawOutRTByte b m = Some m"
  by (simp add: MIDI_RawOutRTByte_def)

lemma rt_gate_clock: "realtime m \<Longrightarrow> \<not> clockout m \<Longrightarrow> MIDI_RawOutRTByte 0xf8 m = Some m"
  by (simp add: MIDI_RawOutRTByte_def)

lemma rt_thru_gate: "\<not> thruchan m \<Longrightarrow> MIDI_RawOutThruRTByte b m = Some m"
  by (simp add: MIDI_RawOutThruRTByte_def)

text \<open>
  Past the gates the handler is called once, but on the bytes of \<^verbatim>\<open>cmd_r = data<<24\<close>:
  the first byte it reads is 0 whatever \<open>b\<close> was, and a backend that takes the length from
  \<^verbatim>\<open>MIDI_evt_len[*msg]\<close> sends nothing.
\<close>

lemma cmd_r_low_byte: "Bitu_bytes (scast (push_bit 24 (ucast (b::u8) :: 32 word))) 0 = 0"
  unfolding Bitu_bytes_def
  apply (rule bit_word_eqI)
  apply (simp add: bit_simps)
  done

lemma rt_forward:
  assumes "realtime m" and "clockout m \<or> b \<noteq> 0xf8" and "handler m \<noteq> None"
  shows "\<exists>m' buf. MIDI_RawOutRTByte b m = Some m' \<and> trace m' = trace m @ [EvPlayMsg buf] \<and>
     length buf = 8 \<and> hd buf = 0 \<and> coremidi_PlayMsg buf = []"
proof -
  from assms(3) obtain h where "handler m = Some h" by blast
  with assms(1,2) show ?thesis
    by (auto simp add: MIDI_RawOutRTByte_def PlayMsg_def emit_def Let_def cmd_r_low_byte
          coremidi_PlayMsg_def upt_rec MIDI_evt_len_def MIDI_evt_len_table_def)
qed

text \<open>
  Claim C10. \<^verbatim>\<open>MIDI_RawOutRTByte(b)\<close> sends nothing when realtime is disabled, nothing
  for \<open>0xF8\<close> when clock passthrough is disabled, and otherwise forwards \<open>b\<close> as one realtime
  message. The code passes both gates as claimed but does not forward \<open>b\<close>: with realtime
  enabled the start byte \<open>0xFA\<close> reaches \<^verbatim>\<open>PlayMsg\<close> as a buffer whose first byte is
  \<open>0x00\<close>, with \<open>0xFA\<close> at offset 3, for which the backend sends an empty packet. The
  sibling path in \<^verbatim>\<open>MIDI_RawOutByte\<close> stores the byte at \<^verbatim>\<open>rt_buf[0]\<close>.
\<close>

theorem realtime_rt_byte_misplaced:
  "map_option trace (MIDI_RawOutRTByte 0xFA none_world)
     = Some [EvPlayMsg [0x00, 0x00, 0x00, 0xFA, 0xFF, 0xFF, 0xFF, 0xFF]] \<and>
   coremidi_PlayMsg [0x00, 0x00, 0x00, 0xFA, 0xFF, 0xFF, 0xFF, 0xFF] = []"
  by (simp add: MIDI_RawOutRTByte_def PlayMsg_def emit_def Let_def none_world_def zero_world_def
        Bitu_bytes_def upt_rec coremidi_PlayMsg_def MIDI_evt_len_def MIDI_evt_len_table_def)

section \<open>Properties of the Disney Sound Source\<close>

lemma Render_Some:
  assumes "fifo d \<noteq> []"
  shows "Render lut d =
     Some ((lut (hd (fifo d)), lut (hd (fifo d))),
           d\<lparr>fifo := (if 1 < length (fifo d) then tl (fifo d) else fifo d)\<rparr>)"
  using assms by (cases "fifo d") (simp_all add: Render_def Let_def)

lemma rendered_Suc:
  assumes "q \<noteq> []"
  shows "rendered lut (Suc k) q =
     (lut (hd q), lut (hd q)) # rendered lut k (if 1 < length q then tl q else q)"
proof (cases q)
  case Nil
  with assms show ?thesis by simp
next
  case (Cons x xs)
  show ?thesis
  proof (cases "xs = []")
    case True
    with Cons show ?thesis
      by (simp add: rendered_def replicate_append_same)
  next
    case False
    have "take k (xs @ replicate k (last xs) @ [last xs]) = take k (xs @ replicate k (last xs))"
      by simp
    with Cons False show ?thesis
      by (simp add: rendered_def replicate_append_same [symmetric])
  qed
qed

lemma render_remainder_eq:
  assumes "fifo d \<noteq> []"
  shows "render_remainder lut k d =
     Some (d\<lparr>channel := channel d @ rendered lut k (fifo d),
             fifo := drop (min k (length (fifo d) - 1)) (fifo d)\<rparr>)"
  using assms
proof (induction k arbitrary: d)
  case 0
  then show ?case by (simp add: rendered_def)
next
  case (Suc k)
  let ?q = "if 1 < length (fifo d) then tl (fifo d) else fifo d"
  let ?d1 = "d\<lparr>fifo := ?q, channel := channel d @ [(lut (hd (fifo d)), lut (hd (fifo d)))]\<rparr>"
  have q: "?q \<noteq> []"
    using Suc.prems by (cases "fifo d") auto
  have dr: "drop (min k (length ?q - 1)) ?q = drop (min (Suc k) (length (fifo d) - 1)) (fifo d)"
    using Suc.prems by (cases "fifo d") (auto simp add: min_def drop_Cons')
  have "render_remainder lut (Suc k) d = render_remainder lut k ?d1"
    by (simp add: Render_Some [OF Suc.prems])
  also have "\<dots> = Some (?d1\<lparr>channel := channel ?d1 @ rendered lut k (fifo ?d1),
             fifo := drop (min k (length (fifo ?d1) - 1)) (fifo ?d1)\<rparr>)"
    by (rule Suc.IH) (use q in simp)
  finally show ?case
    using dr by (simp add: rendered_Suc [OF Suc.prems])
qed

lemma drain_queue_eq:
  "drain_queue n d =
     (n - length (render_queue d),
      d\<lparr>channel := channel d @ take n (render_queue d),
        render_queue := drop n (render_queue d)\<rparr>)"
proof (induction n arbitrary: d)
  case 0
  then show ?case by simp
next
  case (Suc n)
  then show ?case by (cases "render_queue d") simp_all
qed

lemma audio_callback_eq:
  assumes "fifo d \<noteq> []"
  shows "\<exists>d'. AudioCallback lut requested_frames now d = Some d' \<and>
     channel d' = channel d @ take (unat requested_frames) (render_queue d) @
       rendered lut (unat requested_frames - length (render_queue d)) (fifo d) \<and>
     length (channel d') = length (channel d) + unat requested_frames \<and>
     render_queue d' = drop (unat requested_frames) (render_queue d) \<and>
     fifo d' = drop (min (unat requested_frames - length (render_queue d)) (length (fifo d) - 1))
                 (fifo d) \<and>
     fifo d' \<noteq> [] \<and>
     set (rendered lut (unat requested_frames - length (render_queue d)) (fifo d))
       \<subseteq> (\<lambda>b. (lut b, lut b)) ` set (fifo d) \<and>
     last_rendered_ms d' = now"
proof -
  let ?n = "unat requested_frames"
  let ?k = "?n - length (render_queue d)"
  let ?d1 = "d\<lparr>channel := channel d @ take ?n (render_queue d),
               render_queue := drop ?n (render_queue d)\<rparr>"
  have r: "render_remainder lut ?k ?d1 =
     Some (?d1\<lparr>channel := channel ?d1 @ rendered lut ?k (fifo ?d1),
             fifo := drop (min ?k (length (fifo ?d1) - 1)) (fifo ?d1)\<rparr>)"
    by (rule render_remainder_eq) (use assms in simp)
  have len: "length (rendered lut ?k (fifo d)) = ?k"
    by (simp add: rendered_def)
  have sub: "set (rendered lut ?k (fifo d)) \<subseteq> (\<lambda>b. (lut b, lut b)) ` set (fifo d)"
  proof -
    have "set (take ?k (fifo d @ replicate ?k (last (fifo d)))) \<subseteq> set (fifo d)"
      using assms set_take_subset [of ?k "fifo d @ replicate ?k (last (fifo d))"]
      by (auto simp add: set_replicate_conv_if split: if_splits)
    then show ?thesis by (auto simp add: rendered_def)
  qed
  have ne: "drop (min ?k (length (fifo d) - 1)) (fifo d) \<noteq> []"
    using assms by (cases "fifo d") (auto simp add: min_def)
  show ?thesis
    using len sub ne
    by (simp add: AudioCallback_def drain_queue_eq r min_def)
qed


lemma nonempty_length: "xs \<noteq> [] \<Longrightarrow> Suc 0 \<le> length xs"
  by (cases xs) simp_all

lemma Render_fifo:
  assumes "Render lut d = Some (frame, d')"
  shows "fifo d \<noteq> []" and "fifo d' = (if 1 < length (fifo d) then tl (fifo d) else fifo d)"
    and "fifo d' \<noteq> []" and "length (fifo d') \<le> length (fifo d)"
    and "last_rendered_ms d' = last_rendered_ms d"
  using assms
  by (auto simp add: Render_def Let_def split: list.splits if_splits)

lemma render_loop_fifo:
  assumes "fifo d \<noteq> []"
  shows "\<exists>d'. render_loop lut now d = Some d' \<and> fifo d' \<noteq> [] \<and>
     length (fifo d') \<le> length (fifo d) \<and> now \<le> last_rendered_ms d' \<and>
     (length (fifo d) = 1 \<longrightarrow> fifo d' = fifo d) \<and>
     (now \<le> last_rendered_ms d \<longrightarrow> d' = d)"
  using assms
proof (induction lut now d rule: render_loop.induct)
  case (1 lut now d)
  show ?case
  proof (cases "last_rendered_ms d < now")
    case False
    then show ?thesis
      using "1.prems" by (subst render_loop.simps) simp
  next
    case True
    let ?d0 = "d\<lparr>last_rendered_ms := last_rendered_ms d + ms_per_frame\<rparr>"
    let ?frame = "(lut (hd (fifo d)), lut (hd (fifo d)))"
    let ?d1 = "?d0\<lparr>fifo := (if 1 < length (fifo d) then tl (fifo d) else fifo d)\<rparr>"
    let ?d2 = "?d1\<lparr>render_queue := render_queue ?d1 @ [?frame]\<rparr>"
    have r: "Render lut ?d0 = Some (?frame, ?d1)"
      using Render_Some [of ?d0 lut] "1.prems" by simp
    have ne: "fifo ?d2 \<noteq> []"
      using "1.prems" by (cases "fifo d") auto
    from "1.IH" [OF True r refl ne]
    obtain d' where d': "render_loop lut now ?d2 = Some d'" "fifo d' \<noteq> []"
      "length (fifo d') \<le> length (fifo ?d2)" "now \<le> last_rendered_ms d'"
      "length (fifo ?d2) = 1 \<longrightarrow> fifo d' = fifo ?d2"
      by blast
    have step: "render_loop lut now d = render_loop lut now ?d2"
      using True r by (subst render_loop.simps) simp
    have "length (fifo ?d2) \<le> length (fifo d)"
      by simp
    with d' step True show ?thesis
      by (auto split: if_splits)
  qed
qed

lemma RenderUpToNow_fifo:
  assumes "fifo d \<noteq> []"
  shows "\<exists>d'. RenderUpToNow lut now woke d = Some d' \<and> fifo d' \<noteq> [] \<and>
     length (fifo d') \<le> length (fifo d) \<and> now \<le> last_rendered_ms d' \<and>
     (length (fifo d) = 1 \<or> now \<le> last_rendered_ms d \<longrightarrow> fifo d' = fifo d)"
proof (cases woke)
  case True
  with assms show ?thesis by (simp add: RenderUpToNow_def)
next
  case False
  from render_loop_fifo [OF assms, of lut now] obtain d' where
    "render_loop lut now d = Some d'" "fifo d' \<noteq> []"
    "length (fifo d') \<le> length (fifo d)" "now \<le> last_rendered_ms d'"
    "length (fifo d) = 1 \<longrightarrow> fifo d' = fifo d"
    "now \<le> last_rendered_ms d \<longrightarrow> d' = d"
    by blast
  with False show ?thesis by (auto simp add: RenderUpToNow_def)
qed

lemma WriteData_fifo:
  assumes "fifo_ok d"
  shows "\<exists>d'. WriteData lut data now woke d = Some d' \<and> fifo_ok d' \<and>
     now \<le> last_rendered_ms d' \<and>
     (length (fifo d) = 1 \<or> now \<le> last_rendered_ms d \<longrightarrow>
        fifo d' = (if length (fifo d) < max_fifo_size then fifo d @ [data] else fifo d))"
proof -
  from assms have "fifo d \<noteq> []" by (auto simp add: fifo_ok_def)
  from RenderUpToNow_fifo [OF this, of lut now woke] obtain d1 where
    d1: "RenderUpToNow lut now woke d = Some d1" "fifo d1 \<noteq> []"
    "length (fifo d1) \<le> length (fifo d)" "now \<le> last_rendered_ms d1"
    "length (fifo d) = 1 \<or> now \<le> last_rendered_ms d \<longrightarrow> fifo d1 = fifo d"
    by blast
  moreover from d1(2) have "Suc 0 \<le> length (fifo d1)" by (rule nonempty_length)
  ultimately show ?thesis
    using assms by (auto simp add: WriteData_def IsFull_def fifo_ok_def)
qed

lemma disney_step_ok:
  assumes "fifo_ok d"
  shows "\<exists>d'. disney_step lut operation d = Some d' \<and> fifo_ok d'"
proof (cases operation)
  case (OpWriteData data now woke)
  with WriteData_fifo [OF assms, of lut data now woke] show ?thesis by auto
next
  case (OpWriteControl now woke)
  from assms have "fifo d \<noteq> []" by (auto simp add: fifo_ok_def)
  from RenderUpToNow_fifo [OF this, of lut now woke] obtain d' where
    d': "RenderUpToNow lut now woke d = Some d'" "fifo d' \<noteq> []"
    "length (fifo d') \<le> length (fifo d)"
    by blast
  moreover from d'(2) have "Suc 0 \<le> length (fifo d')" by (rule nonempty_length)
  ultimately show ?thesis
    using assms OpWriteControl by (auto simp add: WriteControl_def fifo_ok_def)
next
  case OpReadStatus
  with assms show ?thesis by (simp add: ReadStatus_def Let_def fifo_ok_def)
next
  case (OpAudioCallback n now)
  from assms have ne: "fifo d \<noteq> []" by (auto simp add: fifo_ok_def)
  from audio_callback_eq [OF ne, of lut n now] obtain d' where
    "AudioCallback lut n now d = Some d'" "fifo d' \<noteq> []"
    "fifo d' = drop (min (unat n - length (render_queue d)) (length (fifo d) - 1)) (fifo d)"
    by blast
  moreover from this(2) have "Suc 0 \<le> length (fifo d')" by (rule nonempty_length)
  ultimately show ?thesis
    using assms OpAudioCallback by (auto simp add: fifo_ok_def)
qed

lemma disney_run_ok:
  assumes "fifo_ok d"
  shows "\<exists>d'. disney_run lut ops d = Some d' \<and> fifo_ok d'"
  using assms
proof (induction ops arbitrary: d)
  case Nil
  then show ?case by simp
next
  case (Cons operation ops)
  from disney_step_ok [OF Cons.prems, of lut operation] obtain d1 where
    "disney_step lut operation d = Some d1" "fifo_ok d1" by blast
  with Cons.IH [of d1] show ?case by simp
qed

lemma Disney_ctor_ok: "fifo_ok (Disney_ctor silent)"
  by (simp add: fifo_ok_def Disney_ctor_def max_fifo_size_def)

lemma writes_at_one_instant:
  assumes "fifo_ok d" and "length (fifo d) = 1 \<or> now \<le> last_rendered_ms d"
  shows "\<exists>d'. disney_run lut (writes_at now ws) d = Some d' \<and>
     length (fifo d') = min max_fifo_size (length (fifo d) + length ws)"
  using assms
proof (induction ws arbitrary: d)
  case Nil
  then show ?case by (simp add: writes_at_def fifo_ok_def)
next
  case (Cons w ws)
  obtain data woke where w: "w = (data, woke)" by (cases w)
  from WriteData_fifo [OF Cons.prems(1), of lut data now woke] Cons.prems(2)
  obtain d1 where d1: "WriteData lut data now woke d = Some d1" "fifo_ok d1"
    "now \<le> last_rendered_ms d1"
    "fifo d1 = (if length (fifo d) < max_fifo_size then fifo d @ [data] else fifo d)"
    by blast
  from Cons.IH [OF d1(2)] d1(3) obtain d' where
    "disney_run lut (writes_at now ws) d1 = Some d'"
    "length (fifo d') = min max_fifo_size (length (fifo d1) + length ws)"
    by blast
  with d1 Cons.prems(1) show ?case
    by (auto simp add: writes_at_def w fifo_ok_def min_def)
qed


text \<open>
  Claim C3. In every state the engine reaches from its constructor, the audio callback
  asked for \<open>n\<close> frames hands exactly \<open>n\<close> frames to the channel: first the frames
  waiting in \<open>render_queue\<close>, oldest first and at most \<open>n\<close> of them, then frames rendered
  from the head of the FIFO for the rest. The FIFO is never empty when sampled (each
  rendered frame is the sample of a byte of the FIFO, and the FIFO stays non-empty), and
  \<open>last_rendered_ms\<close> is the current time afterwards.
\<close>

theorem audio_callback_delivers:
  assumes "disney_run lut ops (Disney_ctor silent) = Some d"
  shows "\<exists>d'. AudioCallback lut requested_frames now d = Some d' \<and>
     channel d' = channel d @ take (unat requested_frames) (render_queue d) @
       rendered lut (unat requested_frames - length (render_queue d)) (fifo d) \<and>
     length (channel d') = length (channel d) + unat requested_frames \<and>
     render_queue d' = drop (unat requested_frames) (render_queue d) \<and>
     fifo d' = drop (min (unat requested_frames - length (render_queue d)) (length (fifo d) - 1))
                 (fifo d) \<and>
     fifo d' \<noteq> [] \<and>
     set (rendered lut (unat requested_frames - length (render_queue d)) (fifo d))
       \<subseteq> (\<lambda>b. (lut b, lut b)) ` set (fifo d) \<and>
     last_rendered_ms d' = now"
proof -
  from disney_run_ok [OF Disney_ctor_ok, of lut ops silent] assms
  have "fifo_ok d" by simp
  then have "fifo d \<noteq> []" by (auto simp add: fifo_ok_def)
  then show ?thesis by (rule audio_callback_eq)
qed

theorem audio_callback_delivers_witness:
  "\<exists>d d'. disney_run sample_lut
       [OpWriteData 10 0 True, OpWriteData 20 0 False, OpWriteControl (1 / 7) False] (Disney_ctor 0x80) = Some d \<and>
     render_queue d = [(128, 128)] \<and> fifo d = [10, 20] \<and>
     AudioCallback sample_lut 4 5 d = Some d' \<and>
     channel d' = [(128, 128), (10, 10), (20, 20), (20, 20)] \<and>
     render_queue d' = [] \<and> fifo d' = [20] \<and> last_rendered_ms d' = 5"
proof -
  let ?lut = "sample_lut"
  let ?ops = "[OpWriteData 10 0 True, OpWriteData 20 0 False, OpWriteControl (1 / 7) False]"
  have "\<exists>d. disney_run ?lut ?ops (Disney_ctor 0x80) = Some d \<and>
     render_queue d = [(128, 128)] \<and> fifo d = [10, 20] \<and> channel d = []"
    by (simp add: Disney_ctor_def WriteData_def WriteControl_def RenderUpToNow_def
          render_loop.simps Render_def IsFull_def ms_per_frame_def dac_rate_hz_def
          max_fifo_size_def sample_lut_def Let_def)
  then obtain d where run: "disney_run ?lut ?ops (Disney_ctor 0x80) = Some d"
    and q: "render_queue d = [(128, 128)]" and f: "fifo d = [10, 20]" and c: "channel d = []"
    by blast
  from audio_callback_delivers [OF run, of 4 5] obtain d' where
    "AudioCallback ?lut 4 5 d = Some d'"
    "channel d' = channel d @ take (unat (4 :: 16 word)) (render_queue d) @
       rendered ?lut (unat (4 :: 16 word) - length (render_queue d)) (fifo d)"
    "render_queue d' = drop (unat (4 :: 16 word)) (render_queue d)"
    "fifo d' = drop (min (unat (4 :: 16 word) - length (render_queue d)) (length (fifo d) - 1))
                 (fifo d)"
    "last_rendered_ms d' = 5"
    by blast
  then have "AudioCallback ?lut 4 5 d = Some d' \<and>
     channel d' = [(128, 128), (10, 10), (20, 20), (20, 20)] \<and>
     render_queue d' = [] \<and> fifo d' = [20] \<and> last_rendered_ms d' = 5"
    by (simp add: q f c rendered_def sample_lut_def)
  with run q f show ?thesis by blast
qed

text \<open>
  Seventeen writes without a pull need not fill the FIFO: \<^verbatim>\<open>WriteData\<close> first renders up
  to the current virtual time. Here the first write wakes the channel and the others follow
  one frame period apart, so each of them takes one sample out before it puts one in. The
  FIFO then holds two samples, not sixteen.
\<close>

theorem fifo_drained_between_writes:
  "map_option (length \<circ> fifo)
     (disney_run sample_lut
       [OpWriteData 0x80 (1 / 7) True,
        OpWriteData 0x80 (2 / 7) False,
        OpWriteData 0x80 (3 / 7) False,
        OpWriteData 0x80 (4 / 7) False,
        OpWriteData 0x80 (5 / 7) False,
        OpWriteData 0x80 (6 / 7) False,
        OpWriteData 0x80 (7 / 7) False,
        OpWriteData 0x80 (8 / 7) False,
        OpWriteData 0x80 (9 / 7) False,
        OpWriteData 0x80 (10 / 7) False,
        OpWriteData 0x80 (11 / 7) False,
        OpWriteData 0x80 (12 / 7) False,
        OpWriteData 0x80 (13 / 7) False,
        OpWriteData 0x80 (14 / 7) False,
        OpWriteData 0x80 (15 / 7) False,
        OpWriteData 0x80 (16 / 7) False,
        OpWriteData 0x80 (17 / 7) False]
       (Disney_ctor 0x80)) = Some 2"
  by (simp add: Disney_ctor_def WriteData_def RenderUpToNow_def render_loop.simps Render_def
        IsFull_def ms_per_frame_def dac_rate_hz_def max_fifo_size_def Let_def)

text \<open>
  Claim C4, amended. From the constructed state every sequence of operations of the engine
  runs through and keeps \<open>1 \<le> fifo.size() \<le> 16\<close>; \<^verbatim>\<open>Render\<close> takes the head out only
  when more than one sample is left, and \<^verbatim>\<open>WriteData\<close> appends only when the FIFO is not
  full. In particular, seventeen bytes written at one virtual instant, with no pull, leave
  the FIFO at exactly sixteen samples, the bytes beyond that dropped.
\<close>

theorem fifo_size_invariant:
  "(\<exists>d. disney_run lut ops (Disney_ctor silent) = Some d \<and>
        1 \<le> length (fifo d) \<and> length (fifo d) \<le> 16) \<and>
   (length ws = 17 \<longrightarrow>
      (\<exists>d. disney_run lut (writes_at now ws) (Disney_ctor silent) = Some d \<and>
           length (fifo d) = 16)) \<and>
   map_option (\<lambda>r. fifo (snd r)) (Render lut d0) =
     (case fifo d0 of [] \<Rightarrow> None
      | front # rest \<Rightarrow> Some (if 1 < length (fifo d0) then rest else fifo d0)) \<and>
   map_option fifo (WriteData lut data now woke d0) =
     map_option (\<lambda>d1. if length (fifo d1) < 16 then fifo d1 @ [data] else fifo d1)
       (RenderUpToNow lut now woke d0)"
proof (intro conjI impI)
  from disney_run_ok [OF Disney_ctor_ok, of lut ops silent]
  show "\<exists>d. disney_run lut ops (Disney_ctor silent) = Some d \<and>
        1 \<le> length (fifo d) \<and> length (fifo d) \<le> 16"
    by (auto simp add: fifo_ok_def max_fifo_size_def)
next
  assume ws: "length ws = 17"
  have "length (fifo (Disney_ctor silent)) = 1 \<or> now \<le> last_rendered_ms (Disney_ctor silent)"
    by (simp add: Disney_ctor_def)
  from writes_at_one_instant [OF Disney_ctor_ok this, of lut ws]
  show "\<exists>d. disney_run lut (writes_at now ws) (Disney_ctor silent) = Some d \<and>
           length (fifo d) = 16"
    using ws by (simp add: Disney_ctor_def max_fifo_size_def)
next
  show "map_option (\<lambda>r. fifo (snd r)) (Render lut d0) =
     (case fifo d0 of [] \<Rightarrow> None
      | front # rest \<Rightarrow> Some (if 1 < length (fifo d0) then rest else fifo d0))"
    by (simp add: Render_def Let_def split: list.splits)
next
  show "map_option fifo (WriteData lut data now woke d0) =
     map_option (\<lambda>d1. if length (fifo d1) < 16 then fifo d1 @ [data] else fifo d1)
       (RenderUpToNow lut now woke d0)"
    by (cases "RenderUpToNow lut now woke d0")
       (auto simp add: WriteData_def IsFull_def max_fifo_size_def)
qed

theorem fifo_size_invariant_witness:
  "\<exists>d. disney_run sample_lut (writes_at 3 (replicate 17 (0x55, False))) (Disney_ctor 0x80) = Some d \<and>
     length (fifo d) = 16"
proof -
  have "length (replicate 17 (0x55 :: u8, False)) = 17" by simp
  with fifo_size_invariant [of sample_lut "[]" "0x80" "replicate 17 (0x55, False)" 3]
  show ?thesis by blast
qed

end
